theory Spec2Isabelle
  imports Complex_Main
begin

section \<open>Data model (geometry.h)\<close>

text \<open>
  The structs are parametrised by the type \<open>'d\<close> of their \<open>double\<close> fields. The store,
  the sweeps and the validator are taken at \<open>'d = real\<close> (\<open>Point3D\<close>, \<open>Face\<close>,
  \<open>ModelManager\<close>): they store coordinates and read them back, or depend on the sign of a
  sum of squares only. Where the values of a floating-point computation are at stake, in
  \<open>calculateFaceNormal\<close>, the function is also given over an arbitrary type \<open>'d\<close> with
  arbitrary operations, of which no law of the real numbers is assumed.

  \<open>int\<close> and \<open>size_t\<close> are \<open>int\<close> and \<open>nat\<close>. The sweeps compute ids by sums that the
  source converts to the 32-bit \<open>int\<close> and by the counters \<open>edge_id\<close> and \<open>face_id\<close>; the
  theorems on the sweeps carry the bound on the profile under which none of these values
  leaves the range of \<open>int\<close>, so that the unbounded integers of the model are the values
  of the source.

  A \<open>std::shared_ptr<T>\<close> that may be null is a \<open>T option\<close>; entities are never written
  through a pointer after their construction, so the map and the vector of the manager hold
  values.
\<close>

type_synonym 'd vec3_of = "'d \<times> 'd \<times> 'd"
type_synonym vec3 = "real vec3_of"

record 'd Point3D_of =
  id_pt :: int
  x_pt :: 'd
  y_pt :: 'd
  z_pt :: 'd

type_synonym Point3D = "real Point3D_of"

record Edge =
  start_id :: int
  end_id :: int

record 'd Face_of =
  edge_ids :: "int list"
  normal :: "'d vec3_of"

type_synonym Face = "real Face_of"

text \<open>The constructors of the three structs; a face starts with the zero normal.\<close>

definition mk_Point3D :: "int \<Rightarrow> real \<Rightarrow> real \<Rightarrow> real \<Rightarrow> Point3D" where
  "mk_Point3D i a b c = \<lparr>id_pt = i, x_pt = a, y_pt = b, z_pt = c\<rparr>"

definition mk_Edge :: "int \<Rightarrow> int \<Rightarrow> Edge" where
  "mk_Edge s e = \<lparr>start_id = s, end_id = e\<rparr>"

definition mk_Face :: "int list \<Rightarrow> Face" where
  "mk_Face es = \<lparr>edge_ids = es, normal = (0, 0, 0)\<rparr>"

section \<open>The entity store (model_manager.cpp)\<close>

record 'd ModelManager_of =
  vertex_map :: "int \<rightharpoonup> 'd Point3D_of"
  edge_map :: "int \<rightharpoonup> Edge"
  face_map :: "int \<rightharpoonup> 'd Face_of"
  vertices :: "'d Point3D_of list"
  edges :: "Edge list"
  faces :: "'d Face_of list"

type_synonym ModelManager = "real ModelManager_of"

definition empty_manager :: ModelManager where
  "empty_manager = \<lparr>vertex_map = Map.empty, edge_map = Map.empty, face_map = Map.empty,
     vertices = [], edges = [], faces = []\<rparr>"

definition getVertex :: "'d ModelManager_of \<Rightarrow> int \<Rightarrow> 'd Point3D_of option" where
  "getVertex m i = (case vertex_map m i of Some v \<Rightarrow> Some v | None \<Rightarrow> None)"

definition getEdge :: "'d ModelManager_of \<Rightarrow> int \<Rightarrow> Edge option" where
  "getEdge m i = (case edge_map m i of Some e \<Rightarrow> Some e | None \<Rightarrow> None)"

definition getFace :: "ModelManager \<Rightarrow> int \<Rightarrow> Face option" where
  "getFace m i = (case face_map m i of Some f \<Rightarrow> Some f | None \<Rightarrow> None)"

definition getVertices :: "ModelManager \<Rightarrow> Point3D list" where
  "getVertices m = vertices m"

definition getEdges :: "ModelManager \<Rightarrow> Edge list" where
  "getEdges m = edges m"

definition getFaces :: "ModelManager \<Rightarrow> Face list" where
  "getFaces m = faces m"

text \<open>
  Every mutating member function returns its result together with the manager after the
  call. \<open>None\<close> is the null pointer.
\<close>

definition addVertex :: "int \<Rightarrow> real \<Rightarrow> real \<Rightarrow> real \<Rightarrow> ModelManager
    \<Rightarrow> Point3D option \<times> ModelManager" where
  "addVertex i a b c m =
     (case vertex_map m i of
        Some v \<Rightarrow> (Some v, m)
      | None \<Rightarrow>
          (let vertex = mk_Point3D i a b c
           in (Some vertex,
               m\<lparr>vertex_map := (vertex_map m)(i \<mapsto> vertex),
                 vertices := vertices m @ [vertex]\<rparr>)))"

definition addEdge :: "int \<Rightarrow> int \<Rightarrow> int \<Rightarrow> ModelManager \<Rightarrow> Edge option \<times> ModelManager" where
  "addEdge i s e m =
     (case edge_map m i of
        Some ed \<Rightarrow> (Some ed, m)
      | None \<Rightarrow>
          if getVertex m s = None \<or> getVertex m e = None then (None, m)
          else
            (let edge = mk_Edge s e
             in (Some edge,
                 m\<lparr>edge_map := (edge_map m)(i \<mapsto> edge),
                   edges := edges m @ [edge]\<rparr>)))"

text \<open>The range-for of \<open>addFace\<close> that leaves at the first edge id that is not found.\<close>

fun all_edges_exist :: "ModelManager \<Rightarrow> int list \<Rightarrow> bool" where
  "all_edges_exist m [] = True"
| "all_edges_exist m (edge_id # rest) =
     (if getEdge m edge_id = None then False else all_edges_exist m rest)"

definition addFace :: "int \<Rightarrow> int list \<Rightarrow> ModelManager \<Rightarrow> Face option \<times> ModelManager" where
  "addFace i es m =
     (case face_map m i of
        Some f \<Rightarrow> (Some f, m)
      | None \<Rightarrow>
          if \<not> all_edges_exist m es then (None, m)
          else
            (let face = mk_Face es
             in (Some face,
                 m\<lparr>face_map := (face_map m)(i \<mapsto> face),
                   faces := faces m @ [face]\<rparr>)))"

text \<open>
  \<open>std::vector::reserve\<close> changes the capacity of a vector and none of its elements; the
  capacity is no part of the state above.
\<close>

definition reserveVertices :: "nat \<Rightarrow> ModelManager \<Rightarrow> ModelManager" where
  "reserveVertices n m = m"

definition reserveEdges :: "nat \<Rightarrow> ModelManager \<Rightarrow> ModelManager" where
  "reserveEdges n m = m"

definition reserveFaces :: "nat \<Rightarrow> ModelManager \<Rightarrow> ModelManager" where
  "reserveFaces n m = m"

section \<open>Geometric algorithms (geometry_algorithm.cpp)\<close>

subsection \<open>The static result buffer of \<open>calculateFaceNormal\<close>\<close>

text \<open>
  \<open>calculateFaceNormal\<close> writes its result into the function-local
  \<open>static double normal[3]\<close> and returns a pointer to it. Arrays of doubles live in a heap
  from addresses to arrays; \<open>normal_static\<close> is the address of that one array, and a
  \<open>double*\<close> is an address.
\<close>

type_synonym addr = nat
type_synonym 'd heap_of = "addr \<Rightarrow> nat \<Rightarrow> 'd"
type_synonym heap = "real heap_of"

definition normal_static :: addr where
  "normal_static = 0"

definition rd :: "'d heap_of \<Rightarrow> addr \<Rightarrow> nat \<Rightarrow> 'd" where
  "rd h p i = h p i"

definition wr :: "'d heap_of \<Rightarrow> addr \<Rightarrow> nat \<Rightarrow> 'd \<Rightarrow> 'd heap_of" where
  "wr h p i v = h(p := (h p)(i := v))"

text \<open>The three assignments \<open>normal[0] = 0.0; normal[1] = 0.0; normal[2] = 1.0\<close>.\<close>

definition default_normal :: "heap \<Rightarrow> heap" where
  "default_normal h = wr (wr (wr h normal_static 0 0) normal_static 1 0) normal_static 2 1"

definition calculateFaceNormal :: "Face \<Rightarrow> ModelManager \<Rightarrow> heap \<Rightarrow> addr \<times> heap" where
  "calculateFaceNormal face manager h =
     (if length (edge_ids face) < 3 then (normal_static, default_normal h)
      else
        case (getEdge manager (edge_ids face ! 0), getEdge manager (edge_ids face ! 1)) of
          (Some edge1, Some edge2) \<Rightarrow>
            (case (getVertex manager (start_id edge1), getVertex manager (end_id edge1),
                   getVertex manager (end_id edge2)) of
               (Some v1, Some v2, Some v3) \<Rightarrow>
                 (let v1v2_0 = x_pt v2 - x_pt v1; v1v2_1 = y_pt v2 - y_pt v1;
                      v1v2_2 = z_pt v2 - z_pt v1;
                      v1v3_0 = x_pt v3 - x_pt v1; v1v3_1 = y_pt v3 - y_pt v1;
                      v1v3_2 = z_pt v3 - z_pt v1;
                      h1 = wr h normal_static 0 (v1v2_1 * v1v3_2 - v1v2_2 * v1v3_1);
                      h2 = wr h1 normal_static 1 (v1v2_2 * v1v3_0 - v1v2_0 * v1v3_2);
                      h3 = wr h2 normal_static 2 (v1v2_0 * v1v3_1 - v1v2_1 * v1v3_0);
                      len = sqrt (rd h3 normal_static 0 * rd h3 normal_static 0
                                + rd h3 normal_static 1 * rd h3 normal_static 1
                                + rd h3 normal_static 2 * rd h3 normal_static 2)
                  in if len > 1 / 1000000 then
                       (let h4 = wr h3 normal_static 0 (rd h3 normal_static 0 / len);
                            h5 = wr h4 normal_static 1 (rd h4 normal_static 1 / len);
                            h6 = wr h5 normal_static 2 (rd h5 normal_static 2 / len)
                        in (normal_static, h6))
                     else (normal_static, h3))
             | _ \<Rightarrow> (normal_static, default_normal h))
        | _ \<Rightarrow> (normal_static, default_normal h))"

subsection \<open>\<open>calculateFaceNormal\<close> over arbitrary double operations\<close>

text \<open>
  The operations on \<open>double\<close> that \<open>calculateFaceNormal\<close> uses, as a record of functions
  on a type \<open>'d\<close> of doubles: the four arithmetic operations, \<open>std::sqrt\<close>, the comparison
  \<open>a > b\<close>, and the three literals \<open>0.0\<close>, \<open>1.0\<close> and \<open>1e-6\<close>. Nothing is assumed of
  them: they may round, overflow to an infinity or give and compare a NaN as IEEE 754 has
  it.
\<close>

record 'd double_ops =
  add_d :: "'d \<Rightarrow> 'd \<Rightarrow> 'd"
  sub_d :: "'d \<Rightarrow> 'd \<Rightarrow> 'd"
  mul_d :: "'d \<Rightarrow> 'd \<Rightarrow> 'd"
  div_d :: "'d \<Rightarrow> 'd \<Rightarrow> 'd"
  sqrt_d :: "'d \<Rightarrow> 'd"
  greater_d :: "'d \<Rightarrow> 'd \<Rightarrow> bool"
  zero_d :: 'd
  one_d :: 'd
  micro_d :: 'd

text \<open>The operations of the real numbers, at which the definition above is an instance.\<close>

definition real_ops :: "real double_ops" where
  "real_ops = \<lparr>add_d = (+), sub_d = (-), mul_d = (*), div_d = (/), sqrt_d = sqrt,
     greater_d = (\<lambda>a b. a > b), zero_d = 0, one_d = 1, micro_d = 1 / 1000000\<rparr>"

definition default_normal_ops :: "'d double_ops \<Rightarrow> 'd heap_of \<Rightarrow> 'd heap_of" where
  "default_normal_ops ops h =
     wr (wr (wr h normal_static 0 (zero_d ops)) normal_static 1 (zero_d ops))
       normal_static 2 (one_d ops)"

definition calculateFaceNormal_ops ::
    "'d double_ops \<Rightarrow> 'd Face_of \<Rightarrow> 'd ModelManager_of \<Rightarrow> 'd heap_of \<Rightarrow> addr \<times> 'd heap_of" where
  "calculateFaceNormal_ops ops face manager h =
     (if length (edge_ids face) < 3 then (normal_static, default_normal_ops ops h)
      else
        case (getEdge manager (edge_ids face ! 0), getEdge manager (edge_ids face ! 1)) of
          (Some edge1, Some edge2) \<Rightarrow>
            (case (getVertex manager (start_id edge1), getVertex manager (end_id edge1),
                   getVertex manager (end_id edge2)) of
               (Some v1, Some v2, Some v3) \<Rightarrow>
                 (let v1v2_0 = sub_d ops (x_pt v2) (x_pt v1);
                      v1v2_1 = sub_d ops (y_pt v2) (y_pt v1);
                      v1v2_2 = sub_d ops (z_pt v2) (z_pt v1);
                      v1v3_0 = sub_d ops (x_pt v3) (x_pt v1);
                      v1v3_1 = sub_d ops (y_pt v3) (y_pt v1);
                      v1v3_2 = sub_d ops (z_pt v3) (z_pt v1);
                      h1 = wr h normal_static 0
                             (sub_d ops (mul_d ops v1v2_1 v1v3_2) (mul_d ops v1v2_2 v1v3_1));
                      h2 = wr h1 normal_static 1
                             (sub_d ops (mul_d ops v1v2_2 v1v3_0) (mul_d ops v1v2_0 v1v3_2));
                      h3 = wr h2 normal_static 2
                             (sub_d ops (mul_d ops v1v2_0 v1v3_1) (mul_d ops v1v2_1 v1v3_0));
                      len = sqrt_d ops
                              (add_d ops
                                 (add_d ops
                                    (mul_d ops (rd h3 normal_static 0) (rd h3 normal_static 0))
                                    (mul_d ops (rd h3 normal_static 1) (rd h3 normal_static 1)))
                                 (mul_d ops (rd h3 normal_static 2) (rd h3 normal_static 2)))
                  in if greater_d ops len (micro_d ops) then
                       (let h4 = wr h3 normal_static 0 (div_d ops (rd h3 normal_static 0) len);
                            h5 = wr h4 normal_static 1 (div_d ops (rd h4 normal_static 1) len);
                            h6 = wr h5 normal_static 2 (div_d ops (rd h5 normal_static 2) len)
                        in (normal_static, h6))
                     else (normal_static, h3))
             | _ \<Rightarrow> (normal_static, default_normal_ops ops h))
        | _ \<Rightarrow> (normal_static, default_normal_ops ops h))"

subsection \<open>Transformations\<close>

definition rotateZ :: "Point3D \<Rightarrow> real \<Rightarrow> Point3D" where
  "rotateZ point angle =
     (let cos_theta = cos angle; sin_theta = sin angle;
          x = x_pt point * cos_theta - y_pt point * sin_theta;
          y = x_pt point * sin_theta + y_pt point * cos_theta
      in mk_Point3D (id_pt point) x y (z_pt point))"

subsection \<open>Extrusion\<close>

text \<open>
  Each \<open>for\<close> loop of \<open>extrude\<close> is a fold over its index range. The loops that
  post-increment \<open>edge_id\<close> or \<open>face_id\<close> carry the counter beside the manager.

  Ids are computed in unbounded integers: where the source converts a sum with a
  \<open>size_t\<close> to the \<open>int\<close> parameter of an add operation, or increments an \<open>int\<close>
  counter, the model has the sum or the successor itself. The two agree as long as every
  such value is at most 2147483647; the largest is the last value of \<open>edge_id\<close>, which
  is \<open>3n + 1\<close> in \<open>extrude\<close> and \<open>9n + 1\<close> in \<open>revolve\<close> for a profile of \<open>n\<close> points,
  and the theorems on the two sweeps assume the profile to be within that bound.
\<close>

definition extrude_base_vertices :: "Point3D list \<Rightarrow> int \<Rightarrow> ModelManager \<Rightarrow> ModelManager" where
  "extrude_base_vertices profile_vertices base_id manager =
     fold (\<lambda>i m. let v = profile_vertices ! i
                  in snd (addVertex (base_id + int i) (x_pt v) (y_pt v) (z_pt v) m))
       [0..<length profile_vertices] manager"

definition extrude_top_vertices ::
    "Point3D list \<Rightarrow> int \<Rightarrow> real \<Rightarrow> ModelManager \<Rightarrow> ModelManager" where
  "extrude_top_vertices profile_vertices base_id distance manager =
     fold (\<lambda>i m. let v = profile_vertices ! i
                  in snd (addVertex (base_id + int (length profile_vertices) + int i)
                            (x_pt v) (y_pt v) (z_pt v + distance) m))
       [0..<length profile_vertices] manager"

definition extrude_base_edges :: "nat \<Rightarrow> int \<Rightarrow> int \<times> ModelManager \<Rightarrow> int \<times> ModelManager" where
  "extrude_base_edges vertex_count base_id st =
     fold (\<lambda>i (edge_id, m).
             let next = int ((i + 1) mod vertex_count)
             in (edge_id + 1, snd (addEdge edge_id (base_id + int i) (base_id + next) m)))
       [0..<vertex_count] st"

definition extrude_top_edges :: "nat \<Rightarrow> int \<Rightarrow> int \<times> ModelManager \<Rightarrow> int \<times> ModelManager" where
  "extrude_top_edges vertex_count base_id st =
     fold (\<lambda>i (edge_id, m).
             let next = int ((i + 1) mod vertex_count)
             in (edge_id + 1,
                 snd (addEdge edge_id (base_id + int vertex_count + int i)
                        (base_id + int vertex_count + next) m)))
       [0..<vertex_count] st"

definition extrude_side_edges :: "nat \<Rightarrow> int \<Rightarrow> int \<times> ModelManager \<Rightarrow> int \<times> ModelManager" where
  "extrude_side_edges vertex_count base_id st =
     fold (\<lambda>i (edge_id, m).
             (edge_id + 1,
              snd (addEdge edge_id (base_id + int i) (base_id + int vertex_count + int i) m)))
       [0..<vertex_count] st"

text \<open>The loops that fill \<open>base_edges\<close> and \<open>top_edges\<close> by \<open>push_back\<close>.\<close>

definition push_range :: "nat \<Rightarrow> nat \<Rightarrow> int list" where
  "push_range lo hi = fold (\<lambda>i acc. acc @ [int i]) [lo..<hi + 1] []"

definition extrude_side_faces :: "nat \<Rightarrow> int \<times> ModelManager \<Rightarrow> int \<times> ModelManager" where
  "extrude_side_faces vertex_count st =
     fold (\<lambda>i (face_id, m).
             let side_edges =
                   [int (vertex_count * 2 + 1 + i),
                    int (vertex_count + 1 + (i + 1) mod vertex_count),
                    int (vertex_count * 2 + 1 + (i + 1) mod vertex_count),
                    int (i + 1)]
             in (face_id + 1, snd (addFace face_id side_edges m)))
       [0..<vertex_count] st"

definition extrude :: "ModelManager \<Rightarrow> Point3D list \<Rightarrow> real \<Rightarrow> bool \<times> ModelManager" where
  "extrude manager profile_vertices distance =
     (if profile_vertices = [] then (False, manager)
      else
        let vertex_count = length profile_vertices;
            m0 = reserveFaces (vertex_count + 2)
                   (reserveEdges (vertex_count * 4)
                      (reserveVertices (vertex_count * 2) manager));
            base_id = 1;
            m1 = extrude_base_vertices profile_vertices base_id m0;
            m2 = extrude_top_vertices profile_vertices base_id distance m1;
            (edge_id1, m3) = extrude_base_edges vertex_count base_id (1, m2);
            (edge_id2, m4) = extrude_top_edges vertex_count base_id (edge_id1, m3);
            (edge_id3, m5) = extrude_side_edges vertex_count base_id (edge_id2, m4);
            face_id = 1;
            base_edges = push_range 1 vertex_count;
            m6 = snd (addFace face_id base_edges m5);
            top_edges = push_range (vertex_count + 1) (vertex_count * 2);
            m7 = snd (addFace (face_id + 1) top_edges m6);
            (face_id3, m8) = extrude_side_faces vertex_count (face_id + 2, m7)
        in (True, m8))"

subsection \<open>Revolution\<close>

text \<open>
  The parameters \<open>axis_point\<close> and \<open>axis_direction\<close> are commented out in the source:
  they are received and never read. \<open>steps\<close> is the constant 4.
\<close>

definition steps :: nat where
  "steps = 4"

definition revolve_vertices :: "Point3D list \<Rightarrow> real \<Rightarrow> int \<Rightarrow> ModelManager \<Rightarrow> ModelManager" where
  "revolve_vertices profile_vertices step_angle base_id manager =
     fold (\<lambda>step m.
             let current_angle = step_angle * real step
             in fold (\<lambda>i m'.
                        let v = profile_vertices ! i;
                            rotated = rotateZ v current_angle
                        in snd (addVertex
                                  (base_id + int (step * length profile_vertices) + int i)
                                  (x_pt rotated) (y_pt rotated) (z_pt rotated) m'))
                  [0..<length profile_vertices] m)
       [0..<steps + 1] manager"

definition revolve_ring_edges :: "nat \<Rightarrow> int \<Rightarrow> int \<times> ModelManager \<Rightarrow> int \<times> ModelManager" where
  "revolve_ring_edges vertex_count base_id st =
     fold (\<lambda>step st'.
             fold (\<lambda>i (edge_id, m).
                     let next = int ((i + 1) mod vertex_count)
                     in (edge_id + 1,
                         snd (addEdge edge_id (base_id + int (step * vertex_count) + int i)
                                (base_id + int (step * vertex_count) + next) m)))
               [0..<vertex_count] st')
       [0..<steps + 1] st"

definition revolve_sweep_edges :: "nat \<Rightarrow> int \<Rightarrow> int \<times> ModelManager \<Rightarrow> int \<times> ModelManager" where
  "revolve_sweep_edges vertex_count base_id st =
     fold (\<lambda>i st'.
             fold (\<lambda>step (edge_id, m).
                     (edge_id + 1,
                      snd (addEdge edge_id (base_id + int (step * vertex_count) + int i)
                             (base_id + int ((step + 1) * vertex_count) + int i) m)))
               [0..<steps] st')
       [0..<vertex_count] st"

definition revolve_end_edges :: "nat \<Rightarrow> int list" where
  "revolve_end_edges vertex_count = fold (\<lambda>i acc. acc @ [int (i + 1)]) [0..<vertex_count] []"

definition revolve_side_faces :: "nat \<Rightarrow> int \<times> ModelManager \<Rightarrow> int \<times> ModelManager" where
  "revolve_side_faces vertex_count st =
     fold (\<lambda>step st'.
             fold (\<lambda>i (face_id, m).
                     let base = int (step * vertex_count + 1);
                         next_base = int ((step + 1) * vertex_count + 1);
                         side_edges =
                           [base + int i,
                            base + int ((i + 1) mod vertex_count),
                            next_base + int ((i + 1) mod vertex_count),
                            next_base + int i]
                     in (face_id + 1, snd (addFace face_id side_edges m)))
               [0..<vertex_count] st')
       [0..<steps] st"

definition revolve ::
    "ModelManager \<Rightarrow> Point3D list \<Rightarrow> Point3D \<Rightarrow> addr \<Rightarrow> real \<Rightarrow> bool \<times> ModelManager" where
  "revolve manager profile_vertices axis_point axis_direction angle =
     (if profile_vertices = [] then (False, manager)
      else
        let step_angle = angle / real steps;
            vertex_count = length profile_vertices;
            m0 = reserveFaces (vertex_count * steps + 2)
                   (reserveEdges (vertex_count * (steps * 2 + 1))
                      (reserveVertices (vertex_count * (steps + 1)) manager));
            base_id = 1;
            m1 = revolve_vertices profile_vertices step_angle base_id m0;
            (edge_id1, m2) = revolve_ring_edges vertex_count base_id (1, m1);
            (edge_id2, m3) = revolve_sweep_edges vertex_count base_id (edge_id1, m2);
            face_id = 1;
            end_edges = revolve_end_edges vertex_count;
            m4 = snd (addFace face_id end_edges m3);
            (face_id2, m5) = revolve_side_faces vertex_count (face_id + 1, m4)
        in (True, m5))"

section \<open>The topology validator (topology_checker.cpp)\<close>

subsection \<open>Duplicate edges\<close>

text \<open>\<open>std::to_string\<close> on an \<open>int\<close>: a minus sign for a negative value, then the decimal digits.\<close>

definition digit_char :: "nat \<Rightarrow> char" where
  "digit_char d = char_of (48 + d)"

fun digits_of :: "nat \<Rightarrow> string" where
  "digits_of n = (if n < 10 then [digit_char n] else digits_of (n div 10) @ [digit_char (n mod 10)])"

declare digits_of.simps [simp del]

definition to_string :: "int \<Rightarrow> string" where
  "to_string i = (if i < 0 then CHR ''-'' # digits_of (nat (- i)) else digits_of (nat i))"

definition edge_signature :: "Edge \<Rightarrow> string" where
  "edge_signature edge =
     (let min_id = min (start_id edge) (end_id edge);
          max_id = max (start_id edge) (end_id edge)
      in to_string min_id @ ''-'' @ to_string max_id)"

text \<open>
  One round of the loop over \<open>edges\<close>; the state is \<open>duplicate_edges\<close> and
  \<open>edge_signatures\<close>. The index of the loop is used for \<open>edges[i]\<close> only, and no
  stored pointer is null, so the loop runs over the elements.
\<close>

definition duplicate_edge_step :: "Edge \<Rightarrow> int list \<times> string set \<Rightarrow> int list \<times> string set" where
  "duplicate_edge_step edge st =
     (case st of (duplicate_edges, edge_signatures) \<Rightarrow>
        let signature = edge_signature edge
        in if signature \<in> edge_signatures then (duplicate_edges @ [start_id edge], edge_signatures)
           else (duplicate_edges, insert signature edge_signatures))"

definition detectDuplicateEdges :: "ModelManager \<Rightarrow> int list" where
  "detectDuplicateEdges manager = fst (fold duplicate_edge_step (getEdges manager) ([], {}))"

subsection \<open>Normal inconsistencies\<close>

text \<open>
  One round of the loop over the faces after the first. \<open>ref_normal\<close> and
  \<open>current_normal\<close> are pointers; the dot product reads both through the heap as it is after
  the call that produced \<open>current_normal\<close>.
\<close>

definition normal_step ::
    "ModelManager \<Rightarrow> Face list \<Rightarrow> addr \<Rightarrow> nat \<Rightarrow> int list \<times> heap \<Rightarrow> int list \<times> heap" where
  "normal_step manager fs ref_normal i st =
     (case st of (inconsistent_faces, h) \<Rightarrow>
        let face = fs ! i
        in if edge_ids face = [] then (inconsistent_faces, h)
           else
             (case calculateFaceNormal face manager h of (current_normal, h') \<Rightarrow>
                let dot_product = rd h' ref_normal 0 * rd h' current_normal 0
                                + rd h' ref_normal 1 * rd h' current_normal 1
                                + rd h' ref_normal 2 * rd h' current_normal 2
                in if dot_product < 0 then (inconsistent_faces @ [int (i + 1)], h')
                   else (inconsistent_faces, h')))"

definition detectNormalInconsistencies :: "ModelManager \<Rightarrow> heap \<Rightarrow> int list \<times> heap" where
  "detectNormalInconsistencies manager h =
     (let fs = getFaces manager
      in if fs = [] then ([], h)
         else
           let first_face = fs ! 0
           in if edge_ids first_face = [] then ([], h)
              else
                (case calculateFaceNormal first_face manager h of (ref_normal, h0) \<Rightarrow>
                   fold (normal_step manager fs ref_normal) [1..<length fs] ([], h0)))"

section \<open>Specifications\<close>

subsection \<open>The face normal as a value\<close>

definition vsub :: "Point3D \<Rightarrow> Point3D \<Rightarrow> vec3" where
  "vsub a b = (x_pt a - x_pt b, y_pt a - y_pt b, z_pt a - z_pt b)"

definition cross :: "vec3 \<Rightarrow> vec3 \<Rightarrow> vec3" where
  "cross u v = (case u of (u0, u1, u2) \<Rightarrow> case v of (v0, v1, v2) \<Rightarrow>
     (u1 * v2 - u2 * v1, u2 * v0 - u0 * v2, u0 * v1 - u1 * v0))"

definition dot :: "vec3 \<Rightarrow> vec3 \<Rightarrow> real" where
  "dot u v = (case u of (u0, u1, u2) \<Rightarrow> case v of (v0, v1, v2) \<Rightarrow> u0 * v0 + u1 * v1 + u2 * v2)"

definition vlength :: "vec3 \<Rightarrow> real" where
  "vlength u = sqrt (dot u u)"

definition vdiv :: "vec3 \<Rightarrow> real \<Rightarrow> vec3" where
  "vdiv u c = (case u of (u0, u1, u2) \<Rightarrow> (u0 / c, u1 / c, u2 / c))"

text \<open>
  The normal of a face as the specification words it: the default \<open>(0, 0, 1)\<close> for a face
  of fewer than three edges or with an unresolved first or second edge or an unresolved
  vertex among \<open>v1\<close>, \<open>v2\<close>, \<open>v3\<close>; otherwise the cross product of \<open>v2 - v1\<close> and
  \<open>v3 - v1\<close>, divided by its length when that exceeds \<open>1e-6\<close>.
\<close>

definition spec_face_normal :: "Face \<Rightarrow> ModelManager \<Rightarrow> vec3" where
  "spec_face_normal face store =
     (if length (edge_ids face) < 3 then (0, 0, 1)
      else
        case getEdge store (edge_ids face ! 0) of
          None \<Rightarrow> (0, 0, 1)
        | Some e1 \<Rightarrow>
            (case getEdge store (edge_ids face ! 1) of
               None \<Rightarrow> (0, 0, 1)
             | Some e2 \<Rightarrow>
                 (case getVertex store (start_id e1) of
                    None \<Rightarrow> (0, 0, 1)
                  | Some v1 \<Rightarrow>
                      (case getVertex store (end_id e1) of
                         None \<Rightarrow> (0, 0, 1)
                       | Some v2 \<Rightarrow>
                           (case getVertex store (end_id e2) of
                              None \<Rightarrow> (0, 0, 1)
                            | Some v3 \<Rightarrow>
                                (let n = cross (vsub v2 v1) (vsub v3 v1)
                                 in if vlength n > 1 / 1000000 then vdiv n (vlength n)
                                    else n))))))"

text \<open>The three doubles behind a pointer.\<close>

definition read_vec3 :: "'d heap_of \<Rightarrow> addr \<Rightarrow> 'd vec3_of" where
  "read_vec3 h p = (rd h p 0, rd h p 1, rd h p 2)"

subsection \<open>The face normal as a value, over arbitrary double operations\<close>

text \<open>
  The same vector operations and the same normal with the operations of a \<open>double_ops\<close>:
  the difference of two points, the cross product, the length as the square root of the
  sum of the three squares, and the division of each component by a number.
\<close>

definition vsub_ops :: "'d double_ops \<Rightarrow> 'd Point3D_of \<Rightarrow> 'd Point3D_of \<Rightarrow> 'd vec3_of" where
  "vsub_ops ops a b =
     (sub_d ops (x_pt a) (x_pt b), sub_d ops (y_pt a) (y_pt b), sub_d ops (z_pt a) (z_pt b))"

definition cross_ops :: "'d double_ops \<Rightarrow> 'd vec3_of \<Rightarrow> 'd vec3_of \<Rightarrow> 'd vec3_of" where
  "cross_ops ops u v = (case u of (u0, u1, u2) \<Rightarrow> case v of (v0, v1, v2) \<Rightarrow>
     (sub_d ops (mul_d ops u1 v2) (mul_d ops u2 v1),
      sub_d ops (mul_d ops u2 v0) (mul_d ops u0 v2),
      sub_d ops (mul_d ops u0 v1) (mul_d ops u1 v0)))"

definition vlength_ops :: "'d double_ops \<Rightarrow> 'd vec3_of \<Rightarrow> 'd" where
  "vlength_ops ops u = (case u of (u0, u1, u2) \<Rightarrow>
     sqrt_d ops (add_d ops (add_d ops (mul_d ops u0 u0) (mul_d ops u1 u1)) (mul_d ops u2 u2)))"

definition vdiv_ops :: "'d double_ops \<Rightarrow> 'd vec3_of \<Rightarrow> 'd \<Rightarrow> 'd vec3_of" where
  "vdiv_ops ops u c = (case u of (u0, u1, u2) \<Rightarrow> (div_d ops u0 c, div_d ops u1 c, div_d ops u2 c))"

definition spec_face_normal_ops ::
    "'d double_ops \<Rightarrow> 'd Face_of \<Rightarrow> 'd ModelManager_of \<Rightarrow> 'd vec3_of" where
  "spec_face_normal_ops ops face store =
     (if length (edge_ids face) < 3 then (zero_d ops, zero_d ops, one_d ops)
      else
        case getEdge store (edge_ids face ! 0) of
          None \<Rightarrow> (zero_d ops, zero_d ops, one_d ops)
        | Some e1 \<Rightarrow>
            (case getEdge store (edge_ids face ! 1) of
               None \<Rightarrow> (zero_d ops, zero_d ops, one_d ops)
             | Some e2 \<Rightarrow>
                 (case getVertex store (start_id e1) of
                    None \<Rightarrow> (zero_d ops, zero_d ops, one_d ops)
                  | Some v1 \<Rightarrow>
                      (case getVertex store (end_id e1) of
                         None \<Rightarrow> (zero_d ops, zero_d ops, one_d ops)
                       | Some v2 \<Rightarrow>
                           (case getVertex store (end_id e2) of
                              None \<Rightarrow> (zero_d ops, zero_d ops, one_d ops)
                            | Some v3 \<Rightarrow>
                                (let n = cross_ops ops (vsub_ops ops v2 v1) (vsub_ops ops v3 v1)
                                 in if greater_d ops (vlength_ops ops n) (micro_d ops)
                                    then vdiv_ops ops n (vlength_ops ops n)
                                    else n))))))"

subsection \<open>Normal inconsistencies as the specification words them\<close>

text \<open>
  The reference is the normal of the first face in iteration order; every later face with a
  non-empty edge list is flagged by its 1-based position exactly when the dot product of its
  own normal and the reference is negative.
\<close>

definition spec_normal_inconsistencies :: "ModelManager \<Rightarrow> int list" where
  "spec_normal_inconsistencies store =
     (case getFaces store of
        [] \<Rightarrow> []
      | first_face # rest \<Rightarrow>
          (let reference = spec_face_normal first_face store
           in map (\<lambda>i. int (i + 1))
                (filter (\<lambda>i. edge_ids (getFaces store ! i) \<noteq> []
                              \<and> dot reference (spec_face_normal (getFaces store ! i) store) < 0)
                   [1..<length (getFaces store)])))"

subsection \<open>Reachable stores and referential integrity\<close>

datatype store_op =
    AddVertex int real real real
  | AddEdge int int int
  | AddFace int "int list"
  | ReserveVertices nat
  | ReserveEdges nat
  | ReserveFaces nat

fun apply_op :: "store_op \<Rightarrow> ModelManager \<Rightarrow> ModelManager" where
  "apply_op (AddVertex i a b c) m = snd (addVertex i a b c m)"
| "apply_op (AddEdge i s e) m = snd (addEdge i s e m)"
| "apply_op (AddFace i es) m = snd (addFace i es m)"
| "apply_op (ReserveVertices n) m = reserveVertices n m"
| "apply_op (ReserveEdges n) m = reserveEdges n m"
| "apply_op (ReserveFaces n) m = reserveFaces n m"

definition run_ops :: "store_op list \<Rightarrow> ModelManager" where
  "run_ops ops = fold apply_op ops empty_manager"

definition edge_resolves :: "ModelManager \<Rightarrow> Edge \<Rightarrow> bool" where
  "edge_resolves m e = (getVertex m (start_id e) \<noteq> None \<and> getVertex m (end_id e) \<noteq> None)"

definition face_resolves :: "ModelManager \<Rightarrow> Face \<Rightarrow> bool" where
  "face_resolves m f = list_all (\<lambda>edge_id. getEdge m edge_id \<noteq> None) (edge_ids f)"

text \<open>
  Referential integrity of a store: every edge, in the vector and in the map, has both end
  vertices in the store, and every face, in the vector and in the map, has all its edges in
  the store.
\<close>

definition referential_integrity :: "ModelManager \<Rightarrow> bool" where
  "referential_integrity m =
     (list_all (edge_resolves m) (edges m) \<and> list_all (face_resolves m) (faces m)
      \<and> (\<forall>i e. edge_map m i = Some e \<longrightarrow> edge_resolves m e)
      \<and> (\<forall>i f. face_map m i = Some f \<longrightarrow> face_resolves m f))"

section \<open>Sample inputs\<close>

text \<open>
  Stores built through the add operations: one with two vertices and the edge 1 between
  them, one with the single vertex 1, a run with two refused calls, two triangles over the
  same three vertices in opposite directions, and two edges between the vertices 1 and 2.
\<close>

definition store_with_edge :: ModelManager where
  "store_with_edge =
     snd (addEdge 1 1 2 (snd (addVertex 2 1 0 0 (snd (addVertex 1 0 0 0 empty_manager)))))"

definition store_with_vertex :: ModelManager where
  "store_with_vertex = snd (addVertex 1 2 3 4 empty_manager)"

definition sample_ops :: "store_op list" where
  "sample_ops = [AddVertex 1 0 0 0, ReserveEdges 4, AddVertex 2 1 0 0, AddEdge 1 1 2,
     AddEdge 2 2 9, AddFace 1 [1], AddFace 2 [1, 2]]"

text \<open>The static array before the first call: zero-initialised.\<close>

definition initial_heap :: heap where
  "initial_heap = (\<lambda>p i. 0)"

definition flipped_ops :: "store_op list" where
  "flipped_ops = [AddVertex 1 0 0 0, AddVertex 2 1 0 0, AddVertex 3 0 1 0,
     AddEdge 1 1 2, AddEdge 2 2 3, AddEdge 3 3 1,
     AddEdge 4 1 3, AddEdge 5 3 2, AddEdge 6 2 1,
     AddFace 1 [1, 2, 3], AddFace 2 [4, 5, 6]]"

definition flipped_store :: ModelManager where
  "flipped_store = run_ops flipped_ops"

definition duplicate_store :: ModelManager where
  "duplicate_store =
     run_ops [AddVertex 1 0 0 0, AddVertex 2 1 0 0, AddEdge 10 1 2, AddEdge 11 2 1]"

text \<open>The profile of the scenario: a unit square at \<open>z = 0\<close>.\<close>

definition unit_square :: "Point3D list" where
  "unit_square =
     [mk_Point3D 1 0 0 0, mk_Point3D 2 1 0 0, mk_Point3D 3 1 1 0, mk_Point3D 4 0 1 0]"

section \<open>The entity store: lookups, refusals, integrity\<close>

lemma getVertex_eq: "getVertex m i = vertex_map m i"
  by (simp add: getVertex_def split: option.splits)

lemma getEdge_eq: "getEdge m i = edge_map m i"
  by (simp add: getEdge_def split: option.splits)

lemma getFace_eq: "getFace m i = face_map m i"
  by (simp add: getFace_def split: option.splits)

lemma all_edges_exist_iff:
  "all_edges_exist m es = list_all (\<lambda>edge_id. edge_map m edge_id \<noteq> None) es"
  by (induction es) (simp_all add: getEdge_eq)

text \<open>
  Claim C3, as the code has it: \<open>addEdge\<close> returns the null pointer exactly when the edge
  id is not yet in the store and at least one of the two end vertices is absent. An id that
  is already present gets its stored edge back, whatever the end vertices of the call are.
\<close>

theorem addEdge_fails_iff:
  "(fst (addEdge i s e m) = None \<longleftrightarrow>
      getEdge m i = None \<and> (getVertex m s = None \<or> getVertex m e = None))
   \<and> (getEdge m' i' = Some ed \<longrightarrow> addEdge i' s' e' m' = (Some ed, m'))"
  by (simp add: addEdge_def getEdge_eq Let_def split: option.splits)

theorem addEdge_fails_iff_witness:
  "fst (addEdge 7 1 2 empty_manager) = None \<and> getEdge empty_manager 7 = None
   \<and> getVertex empty_manager 1 = None
   \<and> getEdge store_with_edge 1 = Some (mk_Edge 1 2)
   \<and> addEdge 1 5 6 store_with_edge = (Some (mk_Edge 1 2), store_with_edge)"
proof -
  have a: "getEdge store_with_edge 1 = Some (mk_Edge 1 2)"
    by (simp add: store_with_edge_def addEdge_def addVertex_def getVertex_eq getEdge_eq
        empty_manager_def Let_def)
  have b: "getEdge empty_manager 7 = None" "getVertex empty_manager 1 = None"
    by (simp_all add: getEdge_eq getVertex_eq empty_manager_def)
  show ?thesis
    using addEdge_fails_iff [of 7 1 2 empty_manager store_with_edge 1 "mk_Edge 1 2" 5 6] a b
    by simp
qed

text \<open>
  The equivalence of claim C3 without the condition on the edge id fails: in \<open>store_with_edge\<close>,
  which holds the vertices 1 and 2 and the edge 1, the call \<open>addEdge(1, 5, 6)\<close> names two
  absent vertices and returns the stored edge.
\<close>

theorem addEdge_existing_id_counterexample:
  "\<not> (fst (addEdge 1 5 6 store_with_edge) = None
        \<longleftrightarrow> (getVertex store_with_edge 5 = None \<or> getVertex store_with_edge 6 = None))"
  by (simp add: store_with_edge_def addEdge_def addVertex_def getVertex_eq empty_manager_def
      mk_Point3D_def mk_Edge_def Let_def)

text \<open>
  Claim C6: when \<open>addEdge\<close> or \<open>addFace\<close> returns the null pointer, the manager after the
  call is the manager before it, in all its three maps and three vectors.
\<close>

theorem add_refused_leaves_store:
  "(fst (addEdge i s e m) = None \<longrightarrow> snd (addEdge i s e m) = m)
   \<and> (fst (addFace j es m') = None \<longrightarrow> snd (addFace j es m') = m')"
  by (simp add: addEdge_def addFace_def Let_def split: option.splits)

theorem add_refused_leaves_store_witness:
  "fst (addEdge 1 1 2 empty_manager) = None \<and> snd (addEdge 1 1 2 empty_manager) = empty_manager
   \<and> fst (addFace 1 [1] empty_manager) = None
   \<and> snd (addFace 1 [1] empty_manager) = empty_manager"
proof -
  have a: "fst (addEdge 1 1 2 empty_manager) = None"
    by (simp add: addEdge_def getVertex_eq empty_manager_def)
  have b: "fst (addFace 1 [1] empty_manager) = None"
    by (simp add: addFace_def getEdge_eq empty_manager_def)
  from a b add_refused_leaves_store [of 1 1 2 empty_manager 1 "[1]" empty_manager]
  show ?thesis by simp
qed

text \<open>
  Claim C8: after \<open>addVertex\<close> of an id that was absent, \<open>getVertex\<close> of that id gives the
  vertex with the coordinates of the call; \<open>addVertex\<close> of an id that is present returns the
  stored vertex and leaves the manager, and so the stored coordinates, as they were.
\<close>

theorem addVertex_getVertex:
  "(getVertex m i = None \<longrightarrow>
      (\<exists>v. getVertex (snd (addVertex i a b c m)) i = Some v \<and> fst (addVertex i a b c m) = Some v
           \<and> id_pt v = i \<and> x_pt v = a \<and> y_pt v = b \<and> z_pt v = c))
   \<and> (getVertex m' j = Some w \<longrightarrow>
        addVertex j a' b' c' m' = (Some w, m') \<and> getVertex (snd (addVertex j a' b' c' m')) j = Some w)"
  by (simp add: addVertex_def getVertex_eq mk_Point3D_def Let_def)

theorem addVertex_getVertex_witness:
  "getVertex empty_manager 1 = None
   \<and> getVertex store_with_vertex 1 = Some (mk_Point3D 1 2 3 4)
   \<and> addVertex 1 7 8 9 store_with_vertex = (Some (mk_Point3D 1 2 3 4), store_with_vertex)
   \<and> getVertex (snd (addVertex 1 7 8 9 store_with_vertex)) 1 = Some (mk_Point3D 1 2 3 4)"
proof -
  have a: "getVertex empty_manager 1 = None"
    by (simp add: getVertex_eq empty_manager_def)
  have b: "getVertex store_with_vertex 1 = Some (mk_Point3D 1 2 3 4)"
    by (simp add: store_with_vertex_def addVertex_def getVertex_eq empty_manager_def Let_def)
  from a b addVertex_getVertex [of empty_manager 1 2 3 4 store_with_vertex 1 "mk_Point3D 1 2 3 4" 7 8 9]
  show ?thesis by simp
qed

lemma edge_resolves_mono:
  "edge_resolves m e \<Longrightarrow> \<forall>k. vertex_map m k \<noteq> None \<longrightarrow> vertex_map m' k \<noteq> None
     \<Longrightarrow> edge_resolves m' e"
  by (simp add: edge_resolves_def getVertex_eq)

lemma face_resolves_mono:
  "face_resolves m f \<Longrightarrow> \<forall>k. edge_map m k \<noteq> None \<longrightarrow> edge_map m' k \<noteq> None
     \<Longrightarrow> face_resolves m' f"
  by (auto simp add: face_resolves_def getEdge_eq list_all_iff)

lemma integrity_addVertex:
  assumes "referential_integrity m"
  shows "referential_integrity (snd (addVertex i a b c m))"
proof (cases "vertex_map m i")
  case (Some v)
  with assms show ?thesis by (simp add: addVertex_def)
next
  case None
  let ?m' = "snd (addVertex i a b c m)"
  have grow: "\<forall>k. vertex_map m k \<noteq> None \<longrightarrow> vertex_map ?m' k \<noteq> None"
    using None by (simp add: addVertex_def Let_def)
  have same: "edge_map ?m' = edge_map m" "face_map ?m' = face_map m"
    "edges ?m' = edges m" "faces ?m' = faces m"
    using None by (simp_all add: addVertex_def Let_def)
  have fr: "face_resolves ?m' f = face_resolves m f" for f
    by (simp add: face_resolves_def getEdge_eq same)
  have er: "edge_resolves m e \<Longrightarrow> edge_resolves ?m' e" for e
    by (erule edge_resolves_mono) (rule grow)
  show ?thesis
    using assms unfolding referential_integrity_def same fr
    by (auto simp add: list_all_iff er)
qed

lemma integrity_addEdge:
  assumes "referential_integrity m"
  shows "referential_integrity (snd (addEdge i s e m))"
proof (cases "edge_map m i = None \<and> getVertex m s \<noteq> None \<and> getVertex m e \<noteq> None")
  case False
  then have "snd (addEdge i s e m) = m"
    by (auto simp add: addEdge_def split: option.splits)
  with assms show ?thesis by simp
next
  case True
  let ?m' = "snd (addEdge i s e m)"
  have new: "edge_map ?m' = (edge_map m)(i \<mapsto> mk_Edge s e)" "edges ?m' = edges m @ [mk_Edge s e]"
    and same: "vertex_map ?m' = vertex_map m" "face_map ?m' = face_map m" "faces ?m' = faces m"
    using True by (auto simp add: addEdge_def Let_def)
  have er: "edge_resolves ?m' x = edge_resolves m x" for x
    by (simp add: edge_resolves_def getVertex_eq same)
  have ok: "edge_resolves m (mk_Edge s e)"
    using True by (simp add: edge_resolves_def mk_Edge_def)
  have fr: "face_resolves m f \<Longrightarrow> face_resolves ?m' f" for f
    by (erule face_resolves_mono) (simp add: new)
  show ?thesis
    using assms ok unfolding referential_integrity_def same new er
    by (auto simp add: list_all_iff fr)
qed

lemma integrity_addFace:
  assumes "referential_integrity m"
  shows "referential_integrity (snd (addFace i es m))"
proof (cases "face_map m i = None \<and> all_edges_exist m es")
  case False
  then have "snd (addFace i es m) = m"
    by (auto simp add: addFace_def split: option.splits)
  with assms show ?thesis by simp
next
  case True
  let ?m' = "snd (addFace i es m)"
  have new: "face_map ?m' = (face_map m)(i \<mapsto> mk_Face es)" "faces ?m' = faces m @ [mk_Face es]"
    and same: "vertex_map ?m' = vertex_map m" "edge_map ?m' = edge_map m" "edges ?m' = edges m"
    using True by (simp_all add: addFace_def Let_def)
  have er: "edge_resolves ?m' x = edge_resolves m x" for x
    by (simp add: edge_resolves_def getVertex_eq same)
  have fr: "face_resolves ?m' f = face_resolves m f" for f
    by (simp add: face_resolves_def getEdge_eq same)
  have ok: "face_resolves m (mk_Face es)"
    using True by (simp add: face_resolves_def mk_Face_def all_edges_exist_iff getEdge_eq)
  show ?thesis
    using assms ok unfolding referential_integrity_def same new er fr
    by (auto simp add: list_all_iff)
qed

lemma integrity_apply_op: "referential_integrity m \<Longrightarrow> referential_integrity (apply_op opn m)"
  by (cases opn)
    (simp_all add: integrity_addVertex integrity_addEdge integrity_addFace
      reserveVertices_def reserveEdges_def reserveFaces_def)

lemma integrity_fold:
  "referential_integrity m \<Longrightarrow> referential_integrity (fold apply_op ops m)"
  by (induction ops arbitrary: m) (simp_all add: integrity_apply_op)

lemma integrity_empty: "referential_integrity empty_manager"
  by (simp add: referential_integrity_def empty_manager_def)

text \<open>
  Claim C7: every store reached from the empty one by \<open>addVertex\<close>, \<open>addEdge\<close>,
  \<open>addFace\<close> and the reserve operations has referential integrity: the end vertices of
  every stored edge and the edges of every stored face are in the store.
\<close>

theorem reachable_referential_integrity: "referential_integrity (run_ops ops)"
  unfolding run_ops_def by (rule integrity_fold) (rule integrity_empty)

theorem reachable_referential_integrity_witness:
  "referential_integrity (run_ops sample_ops)
   \<and> edges (run_ops sample_ops) = [mk_Edge 1 2]
   \<and> faces (run_ops sample_ops) = [mk_Face [1]]"
proof -
  have "edges (run_ops sample_ops) = [mk_Edge 1 2]"
    by (simp add: run_ops_def sample_ops_def addVertex_def addEdge_def addFace_def
        getVertex_eq getEdge_eq empty_manager_def reserveEdges_def Let_def)
  moreover have "faces (run_ops sample_ops) = [mk_Face [1]]"
    by (simp add: run_ops_def sample_ops_def addVertex_def addEdge_def addFace_def
        getVertex_eq getEdge_eq empty_manager_def reserveEdges_def Let_def)
  ultimately show ?thesis
    using reachable_referential_integrity [of sample_ops] by simp
qed

section \<open>Face normals and the validator\<close>

lemma calculateFaceNormal_pointer: "fst (calculateFaceNormal face m h) = normal_static"
  by (simp add: calculateFaceNormal_def Let_def split: option.splits)

lemma sum_squares_not_neg: "\<not> (a * a + b * b + c * c < (0::real))"
  by (simp add: not_less)

lemma normal_step_aliased:
  "fst (normal_step m fs normal_static i st) = fst st"
proof (cases st)
  case (Pair acc h)
  obtain p h' where c: "calculateFaceNormal (fs ! i) m h = (p, h')"
    by (cases "calculateFaceNormal (fs ! i) m h")
  have p: "p = normal_static"
    using calculateFaceNormal_pointer [of "fs ! i" m h] c by simp
  show ?thesis
    by (simp add: Pair normal_step_def Let_def c p sum_squares_not_neg)
qed

lemma normal_loop_aliased:
  "fst (fold (normal_step m fs normal_static) js st) = fst st"
  by (induction js arbitrary: st) (simp_all add: normal_step_aliased)

text \<open>
  Claim C2: \<open>detectNormalInconsistencies\<close> returns the empty list for every store. Every
  call of \<open>calculateFaceNormal\<close> returns the address of the one static array, so
  \<open>ref_normal\<close> and \<open>current_normal\<close> are the same address, the dot product is a sum of
  three squares, and the branch for a negative dot product is never taken.
\<close>

theorem detectNormalInconsistencies_always_empty:
  "fst (detectNormalInconsistencies m h) = []
   \<and> fst (calculateFaceNormal face m h') = normal_static"
proof -
  obtain p h0 where c: "calculateFaceNormal (getFaces m ! 0) m h = (p, h0)"
    by (cases "calculateFaceNormal (getFaces m ! 0) m h")
  have p: "p = normal_static"
    using calculateFaceNormal_pointer [of "getFaces m ! 0" m h] c by simp
  have "fst (detectNormalInconsistencies m h) = []"
    by (simp add: detectNormalInconsistencies_def Let_def c p normal_loop_aliased)
  then show ?thesis
    by (simp add: calculateFaceNormal_pointer)
qed

lemma flipped_store_eq:
  "flipped_store =
    \<lparr>vertex_map = [1 \<mapsto> mk_Point3D 1 0 0 0, 2 \<mapsto> mk_Point3D 2 1 0 0,
                   3 \<mapsto> mk_Point3D 3 0 1 0],
     edge_map = [1 \<mapsto> mk_Edge 1 2, 2 \<mapsto> mk_Edge 2 3, 3 \<mapsto> mk_Edge 3 1,
                 4 \<mapsto> mk_Edge 1 3, 5 \<mapsto> mk_Edge 3 2, 6 \<mapsto> mk_Edge 2 1],
     face_map = [1 \<mapsto> mk_Face [1, 2, 3], 2 \<mapsto> mk_Face [4, 5, 6]],
     vertices = [mk_Point3D 1 0 0 0, mk_Point3D 2 1 0 0, mk_Point3D 3 0 1 0],
     edges = [mk_Edge 1 2, mk_Edge 2 3, mk_Edge 3 1, mk_Edge 1 3, mk_Edge 3 2, mk_Edge 2 1],
     faces = [mk_Face [1, 2, 3], mk_Face [4, 5, 6]]\<rparr>"
  by (simp add: flipped_store_def flipped_ops_def run_ops_def addVertex_def addEdge_def addFace_def
      getVertex_eq getEdge_eq empty_manager_def Let_def)

lemma flipped_lookup:
  "getEdge flipped_store 1 = Some (mk_Edge 1 2)"
  "getEdge flipped_store 2 = Some (mk_Edge 2 3)"
  "getEdge flipped_store 4 = Some (mk_Edge 1 3)"
  "getEdge flipped_store 5 = Some (mk_Edge 3 2)"
  "getVertex flipped_store 1 = Some (mk_Point3D 1 0 0 0)"
  "getVertex flipped_store 2 = Some (mk_Point3D 2 1 0 0)"
  "getVertex flipped_store 3 = Some (mk_Point3D 3 0 1 0)"
  "getFaces flipped_store = [mk_Face [1, 2, 3], mk_Face [4, 5, 6]]"
  by (simp_all add: flipped_store_eq getVertex_eq getEdge_eq getFaces_def)

lemma mk_simps:
  "start_id (mk_Edge s e) = s" "end_id (mk_Edge s e) = e"
  "id_pt (mk_Point3D i a b c) = i" "x_pt (mk_Point3D i a b c) = a"
  "y_pt (mk_Point3D i a b c) = b" "z_pt (mk_Point3D i a b c) = c"
  "edge_ids (mk_Face es) = es" "normal (mk_Face es) = (0, 0, 0)"
  by (simp_all add: mk_Edge_def mk_Point3D_def mk_Face_def)

lemma flipped_normal_1: "spec_face_normal (mk_Face [1, 2, 3]) flipped_store = (0, 0, 1)"
  by (simp add: spec_face_normal_def flipped_lookup mk_simps
      cross_def vsub_def vlength_def dot_def vdiv_def Let_def)

lemma flipped_normal_2: "spec_face_normal (mk_Face [4, 5, 6]) flipped_store = (0, 0, - 1)"
  by (simp add: spec_face_normal_def flipped_lookup mk_simps
      cross_def vsub_def vlength_def dot_def vdiv_def Let_def)

lemma upt_1_2: "[1..<2] = [1::nat]"
  by (simp add: upt_rec)

text \<open>
  Claim C1 at \<open>flipped_store\<close>, whose two triangles run through the same three vertices in
  opposite directions: the normal of the first face is \<open>(0, 0, 1)\<close>, that of the second is
  \<open>(0, 0, -1)\<close>, their dot product is negative and the claim flags position 2, while
  \<open>detectNormalInconsistencies\<close> returns the empty list.
\<close>

theorem flipped_face_not_flagged:
  "fst (detectNormalInconsistencies flipped_store initial_heap) = []
   \<and> spec_normal_inconsistencies flipped_store = [2]
   \<and> spec_face_normal (getFaces flipped_store ! 0) flipped_store = (0, 0, 1)
   \<and> spec_face_normal (getFaces flipped_store ! 1) flipped_store = (0, 0, - 1)"
proof -
  have a: "fst (detectNormalInconsistencies flipped_store initial_heap) = []"
    by (simp add: detectNormalInconsistencies_def Let_def flipped_lookup mk_simps upt_1_2
        normal_step_def calculateFaceNormal_def default_normal_def
        rd_def wr_def normal_static_def)
  have b: "spec_normal_inconsistencies flipped_store = [2]"
    by (simp add: spec_normal_inconsistencies_def flipped_lookup upt_1_2 flipped_normal_1
        flipped_normal_2 dot_def mk_simps)
  show ?thesis
    using a b by (simp add: flipped_lookup flipped_normal_1 flipped_normal_2)
qed

lemma calculateFaceNormal_ops_refines:
  "read_vec3 (snd (calculateFaceNormal_ops ops face m h))
       (fst (calculateFaceNormal_ops ops face m h))
     = spec_face_normal_ops ops face m"
  by (simp add: calculateFaceNormal_ops_def spec_face_normal_ops_def read_vec3_def
      default_normal_ops_def rd_def wr_def Let_def cross_ops_def vsub_ops_def vlength_ops_def
      vdiv_ops_def split: option.splits)

lemma spec_face_normal_ops_first_two:
  assumes "3 \<le> length (edge_ids f)" "3 \<le> length (edge_ids g)"
    and "edge_ids g ! 0 = edge_ids f ! 0" "edge_ids g ! 1 = edge_ids f ! 1"
  shows "spec_face_normal_ops ops g m = spec_face_normal_ops ops f m"
  unfolding spec_face_normal_ops_def assms(3,4) using assms(1,2) by simp

text \<open>
  The function over the reals, which the validator above calls, is the function over
  arbitrary operations at the operations of the reals.
\<close>

lemma calculateFaceNormal_real_ops:
  "calculateFaceNormal face m h = calculateFaceNormal_ops real_ops face m h"
  by (simp add: calculateFaceNormal_def calculateFaceNormal_ops_def real_ops_def
      default_normal_def default_normal_ops_def Let_def split: option.splits)

text \<open>
  Claim C10, for every type of doubles and every choice of the operations on them: the three
  doubles behind the pointer that \<open>calculateFaceNormal\<close> returns are \<open>(0.0, 0.0, 1.0)\<close> for
  a face of fewer than three edges or with an unresolved first or second edge or an
  unresolved \<open>v1\<close>, \<open>v2\<close> or \<open>v3\<close>; otherwise they are the cross product of \<open>v2 - v1\<close> and
  \<open>v3 - v1\<close> as the operations compute it, each component divided by the computed length
  when the comparison of that length with \<open>1e-6\<close> holds, and the cross product as it is
  when the comparison does not hold. Two faces of three or more edges that agree on their
  first two edge ids get the same normal. (That the quotient has length 1 is a law of the
  real numbers, not of doubles, and is not part of the statement.)
\<close>

theorem calculateFaceNormal_ops_value:
  "read_vec3 (snd (calculateFaceNormal_ops ops face m h))
       (fst (calculateFaceNormal_ops ops face m h))
     = spec_face_normal_ops ops face m
   \<and> (\<forall>g h'. 3 \<le> length (edge_ids face) \<and> 3 \<le> length (edge_ids g)
         \<and> edge_ids g ! 0 = edge_ids face ! 0 \<and> edge_ids g ! 1 = edge_ids face ! 1
       \<longrightarrow> read_vec3 (snd (calculateFaceNormal_ops ops g m h'))
               (fst (calculateFaceNormal_ops ops g m h'))
           = read_vec3 (snd (calculateFaceNormal_ops ops face m h))
               (fst (calculateFaceNormal_ops ops face m h)))"
  by (simp add: calculateFaceNormal_ops_refines spec_face_normal_ops_first_two)

lemma flipped_normal_ops_2:
  "spec_face_normal_ops real_ops (mk_Face [4, 5, 6]) flipped_store = (0, 0, - 1)"
  by (simp add: spec_face_normal_ops_def flipped_lookup mk_simps real_ops_def
      cross_ops_def vsub_ops_def vlength_ops_def vdiv_ops_def Let_def)

theorem calculateFaceNormal_ops_value_witness:
  "read_vec3 (snd (calculateFaceNormal_ops real_ops (mk_Face [4, 5, 6]) flipped_store initial_heap))
       (fst (calculateFaceNormal_ops real_ops (mk_Face [4, 5, 6]) flipped_store initial_heap))
     = (0, 0, - 1)
   \<and> read_vec3
         (snd (calculateFaceNormal_ops real_ops (mk_Face [4, 5, 1, 2, 3]) flipped_store
                 initial_heap))
         (fst (calculateFaceNormal_ops real_ops (mk_Face [4, 5, 1, 2, 3]) flipped_store
                 initial_heap))
     = (0, 0, - 1)"
  using calculateFaceNormal_ops_value [of real_ops "mk_Face [4, 5, 6]" flipped_store initial_heap]
  by (simp add: flipped_normal_ops_2 mk_simps)

lemma signature_1_2:
  assumes "(start_id e = 1 \<and> end_id e = 2) \<or> (start_id e = 2 \<and> end_id e = 1)"
  shows "edge_signature e = to_string 1 @ ''-'' @ to_string 2"
  using assms by (auto simp add: edge_signature_def Let_def)

text \<open>
  Claim C9: in a store with the vertices 1 and 2 whose edges are exactly two edges between
  vertex 1 and vertex 2, in either orientation, \<open>detectDuplicateEdges\<close> returns one entry,
  the start vertex id of the second edge.
\<close>

theorem duplicate_edge_reports_start_vertex:
  assumes "getVertex m 1 \<noteq> None" and "getVertex m 2 \<noteq> None"
    and "getEdges m = [e1, e2]"
    and "(start_id e1 = 1 \<and> end_id e1 = 2) \<or> (start_id e1 = 2 \<and> end_id e1 = 1)"
    and "(start_id e2 = 1 \<and> end_id e2 = 2) \<or> (start_id e2 = 2 \<and> end_id e2 = 1)"
  shows "detectDuplicateEdges m = [start_id e2]"
  by (simp add: detectDuplicateEdges_def assms(3) duplicate_edge_step_def Let_def
      signature_1_2 [OF assms(4)] signature_1_2 [OF assms(5)])

lemma duplicate_store_edges: "getEdges duplicate_store = [mk_Edge 1 2, mk_Edge 2 1]"
  by (simp add: duplicate_store_def run_ops_def addVertex_def addEdge_def getEdges_def
      getVertex_eq empty_manager_def Let_def)

lemma duplicate_store_vertices:
  "getVertex duplicate_store 1 \<noteq> None" "getVertex duplicate_store 2 \<noteq> None"
  by (simp_all add: duplicate_store_def run_ops_def addVertex_def addEdge_def
      getVertex_eq empty_manager_def Let_def)

theorem duplicate_edge_reports_start_vertex_witness:
  "getEdges duplicate_store = [mk_Edge 1 2, mk_Edge 2 1]
   \<and> getEdge duplicate_store 10 = Some (mk_Edge 1 2)
   \<and> getEdge duplicate_store 11 = Some (mk_Edge 2 1)
   \<and> detectDuplicateEdges duplicate_store = [2]"
proof -
  have "detectDuplicateEdges duplicate_store = [start_id (mk_Edge 2 1)]"
    by (rule duplicate_edge_reports_start_vertex
          [OF duplicate_store_vertices duplicate_store_edges])
      (simp_all add: mk_simps)
  moreover have "getEdge duplicate_store 10 = Some (mk_Edge 1 2)"
    "getEdge duplicate_store 11 = Some (mk_Edge 2 1)"
    by (simp_all add: duplicate_store_def run_ops_def addVertex_def addEdge_def
        getVertex_eq getEdge_eq empty_manager_def Let_def)
  ultimately show ?thesis
    by (simp add: duplicate_store_edges mk_simps)
qed

section \<open>The loops of the sweeps\<close>

text \<open>
  A loop that adds entities under consecutive fresh ids, all references resolved, extends
  the map on the range of the ids and appends to the vector.
\<close>

lemma fold_upt_Suc: "fold f [0..<Suc n] s = f n (fold f [0..<n] s)"
  by simp

lemma empty_range: "((b::int) \<le> k \<and> k < b) = False"
  by auto

lemma addVertex_fresh:
  "vertex_map m i = None \<Longrightarrow>
     snd (addVertex i a b c m)
       = m\<lparr>vertex_map := (vertex_map m)(i \<mapsto> mk_Point3D i a b c),
           vertices := vertices m @ [mk_Point3D i a b c]\<rparr>"
  by (simp add: addVertex_def Let_def)

lemma addEdge_fresh:
  "edge_map m i = None \<Longrightarrow> vertex_map m s \<noteq> None \<Longrightarrow> vertex_map m e \<noteq> None \<Longrightarrow>
     snd (addEdge i s e m)
       = m\<lparr>edge_map := (edge_map m)(i \<mapsto> mk_Edge s e), edges := edges m @ [mk_Edge s e]\<rparr>"
  by (auto simp add: addEdge_def getVertex_eq Let_def)

lemma addFace_fresh:
  "face_map m i = None \<Longrightarrow> list_all (\<lambda>k. edge_map m k \<noteq> None) es \<Longrightarrow>
     snd (addFace i es m)
       = m\<lparr>face_map := (face_map m)(i \<mapsto> mk_Face es), faces := faces m @ [mk_Face es]\<rparr>"
  by (simp add: addFace_def all_edges_exist_iff Let_def)

lemma addVertex_loop:
  assumes "\<forall>i<n. vertex_map m (b + int i) = None"
  shows "fold (\<lambda>i m. snd (addVertex (b + int i) (fx i) (fy i) (fz i) m)) [0..<n] m
         = m\<lparr>vertex_map :=
               (\<lambda>k. if b \<le> k \<and> k < b + int n
                    then Some (mk_Point3D k (fx (nat (k - b))) (fy (nat (k - b))) (fz (nat (k - b))))
                    else vertex_map m k),
             vertices := vertices m @ map (\<lambda>i. mk_Point3D (b + int i) (fx i) (fy i) (fz i)) [0..<n]\<rparr>"
  using assms
proof (induction n)
  case 0
  then show ?case by (simp add: empty_range)
next
  case (Suc n)
  let ?m = "fold (\<lambda>i m. snd (addVertex (b + int i) (fx i) (fy i) (fz i) m)) [0..<n] m"
  have ih: "?m = m\<lparr>vertex_map :=
               (\<lambda>k. if b \<le> k \<and> k < b + int n
                    then Some (mk_Point3D k (fx (nat (k - b))) (fy (nat (k - b))) (fz (nat (k - b))))
                    else vertex_map m k),
             vertices := vertices m @ map (\<lambda>i. mk_Point3D (b + int i) (fx i) (fy i) (fz i)) [0..<n]\<rparr>"
    using Suc by simp
  have fresh: "vertex_map ?m (b + int n) = None"
    using Suc.prems by (simp add: ih)
  have "(\<lambda>k. if b \<le> k \<and> k < b + int n
                    then Some (mk_Point3D k (fx (nat (k - b))) (fy (nat (k - b))) (fz (nat (k - b))))
                    else vertex_map m k)(b + int n \<mapsto> mk_Point3D (b + int n) (fx n) (fy n) (fz n))
        = (\<lambda>k. if b \<le> k \<and> k < b + int (Suc n)
                    then Some (mk_Point3D k (fx (nat (k - b))) (fy (nat (k - b))) (fz (nat (k - b))))
                    else vertex_map m k)"
    by (rule ext) auto
  then show ?case
    unfolding fold_upt_Suc addVertex_fresh [OF fresh]
    by (simp add: ih)
qed

lemma addEdge_loop:
  assumes "\<forall>i<n. edge_map m (c + int i) = None"
    and "\<forall>i<n. vertex_map m (s i) \<noteq> None \<and> vertex_map m (e i) \<noteq> None"
  shows "fold (\<lambda>i (edge_id, m). (edge_id + 1, snd (addEdge edge_id (s i) (e i) m))) [0..<n] (c, m)
         = (c + int n,
            m\<lparr>edge_map :=
                (\<lambda>k. if c \<le> k \<and> k < c + int n
                     then Some (mk_Edge (s (nat (k - c))) (e (nat (k - c))))
                     else edge_map m k),
              edges := edges m @ map (\<lambda>i. mk_Edge (s i) (e i)) [0..<n]\<rparr>)"
  using assms
proof (induction n)
  case 0
  then show ?case by (simp add: empty_range)
next
  case (Suc n)
  let ?f = "\<lambda>i (edge_id, m). (edge_id + 1, snd (addEdge edge_id (s i) (e i) m))"
  let ?m = "m\<lparr>edge_map :=
                (\<lambda>k. if c \<le> k \<and> k < c + int n
                     then Some (mk_Edge (s (nat (k - c))) (e (nat (k - c))))
                     else edge_map m k),
              edges := edges m @ map (\<lambda>i. mk_Edge (s i) (e i)) [0..<n]\<rparr>"
  have ih: "fold ?f [0..<n] (c, m) = (c + int n, ?m)"
    using Suc by simp
  have fresh: "edge_map ?m (c + int n) = None"
    using Suc.prems by simp
  have vs: "vertex_map ?m (s n) \<noteq> None" "vertex_map ?m (e n) \<noteq> None"
    using Suc.prems by simp_all
  have "(\<lambda>k. if c \<le> k \<and> k < c + int n
                     then Some (mk_Edge (s (nat (k - c))) (e (nat (k - c))))
                     else edge_map m k)(c + int n \<mapsto> mk_Edge (s n) (e n))
        = (\<lambda>k. if c \<le> k \<and> k < c + int (Suc n)
                     then Some (mk_Edge (s (nat (k - c))) (e (nat (k - c))))
                     else edge_map m k)"
    by (rule ext) auto
  then show ?case
    unfolding fold_upt_Suc ih
    by (simp add: addEdge_fresh [OF fresh vs])
qed

lemma addFace_loop:
  assumes "\<forall>i<n. face_map m (c + int i) = None"
    and "\<forall>i<n. list_all (\<lambda>k. edge_map m k \<noteq> None) (es i)"
  shows "fold (\<lambda>i (face_id, m). (face_id + 1, snd (addFace face_id (es i) m))) [0..<n] (c, m)
         = (c + int n,
            m\<lparr>face_map :=
                (\<lambda>k. if c \<le> k \<and> k < c + int n then Some (mk_Face (es (nat (k - c))))
                     else face_map m k),
              faces := faces m @ map (\<lambda>i. mk_Face (es i)) [0..<n]\<rparr>)"
  using assms
proof (induction n)
  case 0
  then show ?case by (simp add: empty_range)
next
  case (Suc n)
  let ?f = "\<lambda>i (face_id, m). (face_id + 1, snd (addFace face_id (es i) m))"
  let ?m = "m\<lparr>face_map :=
                (\<lambda>k. if c \<le> k \<and> k < c + int n then Some (mk_Face (es (nat (k - c))))
                     else face_map m k),
              faces := faces m @ map (\<lambda>i. mk_Face (es i)) [0..<n]\<rparr>"
  have ih: "fold ?f [0..<n] (c, m) = (c + int n, ?m)"
    using Suc by simp
  have fresh: "face_map ?m (c + int n) = None"
    using Suc.prems by simp
  have ex: "list_all (\<lambda>k. edge_map ?m k \<noteq> None) (es n)"
    using Suc.prems by simp
  have "(\<lambda>k. if c \<le> k \<and> k < c + int n then Some (mk_Face (es (nat (k - c))))
                     else face_map m k)(c + int n \<mapsto> mk_Face (es n))
        = (\<lambda>k. if c \<le> k \<and> k < c + int (Suc n) then Some (mk_Face (es (nat (k - c))))
                     else face_map m k)"
    by (rule ext) auto
  then show ?case
    unfolding fold_upt_Suc ih
    by (simp add: addFace_fresh [OF fresh ex])
qed

lemma push_back_loop: "fold (\<lambda>i acc. acc @ [f i]) xs acc = acc @ map f xs"
  by (induction xs arbitrary: acc) simp_all

section \<open>Extrusion of a profile into the empty store\<close>

lemma extrude_empty_store:
  assumes ne: "p \<noteq> []"
  shows "fst (extrude empty_manager p d) = True"
    and "vertex_map (snd (extrude empty_manager p d)) =
          (\<lambda>k. if 1 + int (length p) \<le> k \<and> k < 1 + int (length p) + int (length p)
             then Some (mk_Point3D k (x_pt (p ! nat (k - (1 + int (length p)))))
                          (y_pt (p ! nat (k - (1 + int (length p)))))
                          (z_pt (p ! nat (k - (1 + int (length p)))) + d))
             else if 1 \<le> k \<and> k < 1 + int (length p)
             then Some (mk_Point3D k (x_pt (p ! nat (k - 1))) (y_pt (p ! nat (k - 1)))
                          (z_pt (p ! nat (k - 1))))
             else None)"
    and "vertices (snd (extrude empty_manager p d)) =
          map (\<lambda>i. mk_Point3D (1 + int i) (x_pt (p ! i)) (y_pt (p ! i)) (z_pt (p ! i))) [0..<length p]
           @ map (\<lambda>i. mk_Point3D (1 + int (length p) + int i) (x_pt (p ! i)) (y_pt (p ! i))
                      (z_pt (p ! i) + d)) [0..<length p]"
    and "edge_map (snd (extrude empty_manager p d)) =
          (\<lambda>k. if 1 + int (length p) + int (length p) \<le> k \<and> k < 1 + int (length p) + int (length p) + int (length p)
             then Some (mk_Edge (1 + int (nat (k - (1 + int (length p) + int (length p)))))
                          (1 + int (length p) + int (nat (k - (1 + int (length p) + int (length p))))))
             else if 1 + int (length p) \<le> k \<and> k < 1 + int (length p) + int (length p)
             then Some (mk_Edge (1 + int (length p) + int (nat (k - (1 + int (length p)))))
                          (1 + int (length p) + int ((nat (k - (1 + int (length p))) + 1) mod length p)))
             else if 1 \<le> k \<and> k < 1 + int (length p)
             then Some (mk_Edge (1 + int (nat (k - 1))) (1 + int ((nat (k - 1) + 1) mod length p)))
             else None)"
    and "edges (snd (extrude empty_manager p d)) =
          map (\<lambda>i. mk_Edge (1 + int i) (1 + int ((i + 1) mod length p))) [0..<length p]
           @ map (\<lambda>i. mk_Edge (1 + int (length p) + int i) (1 + int (length p) + int ((i + 1) mod length p))) [0..<length p]
           @ map (\<lambda>i. mk_Edge (1 + int i) (1 + int (length p) + int i)) [0..<length p]"
    and "face_map (snd (extrude empty_manager p d)) =
          (\<lambda>k. if 3 \<le> k \<and> k < 3 + int (length p)
             then Some (mk_Face
                          [int (length p * 2 + 1 + nat (k - 3)), int (length p + 1 + (nat (k - 3) + 1) mod length p),
                           int (length p * 2 + 1 + (nat (k - 3) + 1) mod length p), int (nat (k - 3) + 1)])
             else if k = 2 then Some (mk_Face (map int [length p + 1..<length p * 2 + 1]))
             else if k = 1 then Some (mk_Face (map int [1..<length p + 1]))
             else None)"
    and "faces (snd (extrude empty_manager p d)) =
          [mk_Face (map int [1..<length p + 1]),
            mk_Face (map int [length p + 1..<length p * 2 + 1])]
           @ map (\<lambda>i. mk_Face
                          [int (length p * 2 + 1 + i), int (length p + 1 + (i + 1) mod length p),
                           int (length p * 2 + 1 + (i + 1) mod length p), int (i + 1)]) [0..<length p]"
proof -
  define n where "n = length p"
  have n: "0 < n" using ne by (simp add: n_def)
  have md: "Suc i mod n < n" for i using n by simp
  have md2: "1 + int (Suc i mod n) \<le> int n" for i
    using md [of i] by (simp add: Suc_leI flip: of_nat_Suc)
  have md3: "1 + int (Suc i mod n) \<le> 2 * int n" for i using md2 [of i] by linarith
  have f0: "vertex_map empty_manager = Map.empty" "vertices empty_manager = []"
    "edge_map empty_manager = Map.empty" "edges empty_manager = []"
    "face_map empty_manager = Map.empty" "faces empty_manager = []"
    by (simp_all add: empty_manager_def)
  \<comment> \<open>the two rings of vertices\<close>
  define M1 where "M1 = empty_manager
    \<lparr>vertex_map := (\<lambda>k. if 1 \<le> k \<and> k < 1 + int n
         then Some (mk_Point3D k (x_pt (p ! nat (k - 1))) (y_pt (p ! nat (k - 1)))
                      (z_pt (p ! nat (k - 1))))
         else vertex_map empty_manager k),
      vertices := vertices empty_manager @ map (\<lambda>i. mk_Point3D (1 + int i) (x_pt (p ! i)) (y_pt (p ! i)) (z_pt (p ! i))) [0..<n]\<rparr>"
  have p1: "extrude_base_vertices p 1 empty_manager = M1"
    unfolding extrude_base_vertices_def Let_def M1_def n_def [symmetric]
    by (rule addVertex_loop) (simp add: f0)
  have f1: "vertex_map M1 = (\<lambda>k. if 1 \<le> k \<and> k < 1 + int n
         then Some (mk_Point3D k (x_pt (p ! nat (k - 1))) (y_pt (p ! nat (k - 1)))
                      (z_pt (p ! nat (k - 1))))
         else vertex_map empty_manager k)"
    "vertices M1 = vertices empty_manager @ map (\<lambda>i. mk_Point3D (1 + int i) (x_pt (p ! i)) (y_pt (p ! i)) (z_pt (p ! i))) [0..<n]"
    "edge_map M1 = edge_map empty_manager"
    "edges M1 = edges empty_manager"
    "face_map M1 = face_map empty_manager"
    "faces M1 = faces empty_manager"
    by (simp_all add: M1_def)
  define M2 where "M2 = M1
    \<lparr>vertex_map := (\<lambda>k. if 1 + int n \<le> k \<and> k < 1 + int n + int n
         then Some (mk_Point3D k (x_pt (p ! nat (k - (1 + int n))))
                      (y_pt (p ! nat (k - (1 + int n))))
                      (z_pt (p ! nat (k - (1 + int n))) + d))
         else vertex_map M1 k),
      vertices := vertices M1 @ map (\<lambda>i. mk_Point3D (1 + int n + int i) (x_pt (p ! i)) (y_pt (p ! i))
                      (z_pt (p ! i) + d)) [0..<n]\<rparr>"
  have p2: "extrude_top_vertices p 1 d M1 = M2"
    unfolding extrude_top_vertices_def Let_def M2_def n_def [symmetric]
    by (rule addVertex_loop) (simp add: f1 f0)
  have f2: "vertex_map M2 = (\<lambda>k. if 1 + int n \<le> k \<and> k < 1 + int n + int n
         then Some (mk_Point3D k (x_pt (p ! nat (k - (1 + int n))))
                      (y_pt (p ! nat (k - (1 + int n))))
                      (z_pt (p ! nat (k - (1 + int n))) + d))
         else vertex_map M1 k)"
    "vertices M2 = vertices M1 @ map (\<lambda>i. mk_Point3D (1 + int n + int i) (x_pt (p ! i)) (y_pt (p ! i))
                      (z_pt (p ! i) + d)) [0..<n]"
    "edge_map M2 = edge_map M1"
    "edges M2 = edges M1"
    "face_map M2 = face_map M1"
    "faces M2 = faces M1"
    by (simp_all add: M2_def)
  have v2: "(\<exists>y. vertex_map M2 k = Some y) = (1 \<le> k \<and> k < 1 + int n + int n)" for k
    by (auto simp add: f2(1) f1(1) f0)
  have e2: "edge_map M2 = Map.empty" "face_map M2 = Map.empty"
    by (simp_all add: f2 f1 f0)
  \<comment> \<open>the base ring, the top ring and the vertical edges\<close>
  define M3 where "M3 = M2
    \<lparr>edge_map := (\<lambda>k. if 1 \<le> k \<and> k < 1 + int n
         then Some (mk_Edge (1 + int (nat (k - 1))) (1 + int ((nat (k - 1) + 1) mod n)))
         else edge_map M2 k),
      edges := edges M2 @ map (\<lambda>i. mk_Edge (1 + int i) (1 + int ((i + 1) mod n))) [0..<n]\<rparr>"
  have p3: "extrude_base_edges n 1 (1, M2) = (1 + int n, M3)"
    unfolding extrude_base_edges_def Let_def M3_def
    by (rule addEdge_loop) (simp_all add: e2 v2 md md2 md3)
  have f3: "edge_map M3 = (\<lambda>k. if 1 \<le> k \<and> k < 1 + int n
         then Some (mk_Edge (1 + int (nat (k - 1))) (1 + int ((nat (k - 1) + 1) mod n)))
         else edge_map M2 k)"
    "edges M3 = edges M2 @ map (\<lambda>i. mk_Edge (1 + int i) (1 + int ((i + 1) mod n))) [0..<n]"
    "vertex_map M3 = vertex_map M2"
    "vertices M3 = vertices M2"
    "face_map M3 = face_map M2"
    "faces M3 = faces M2"
    by (simp_all add: M3_def)
  have v3: "(\<exists>y. vertex_map M3 k = Some y) = (1 \<le> k \<and> k < 1 + int n + int n)" for k
    by (simp only: f3 v2)
  define M4 where "M4 = M3
    \<lparr>edge_map := (\<lambda>k. if 1 + int n \<le> k \<and> k < 1 + int n + int n
         then Some (mk_Edge (1 + int n + int (nat (k - (1 + int n))))
                      (1 + int n + int ((nat (k - (1 + int n)) + 1) mod n)))
         else edge_map M3 k),
      edges := edges M3 @ map (\<lambda>i. mk_Edge (1 + int n + int i) (1 + int n + int ((i + 1) mod n))) [0..<n]\<rparr>"
  have p4: "extrude_top_edges n 1 (1 + int n, M3) = (1 + int n + int n, M4)"
    unfolding extrude_top_edges_def Let_def M4_def
    by (rule addEdge_loop) (simp_all add: f3(1) e2 v3 md md2 md3)
  have f4: "edge_map M4 = (\<lambda>k. if 1 + int n \<le> k \<and> k < 1 + int n + int n
         then Some (mk_Edge (1 + int n + int (nat (k - (1 + int n))))
                      (1 + int n + int ((nat (k - (1 + int n)) + 1) mod n)))
         else edge_map M3 k)"
    "edges M4 = edges M3 @ map (\<lambda>i. mk_Edge (1 + int n + int i) (1 + int n + int ((i + 1) mod n))) [0..<n]"
    "vertex_map M4 = vertex_map M3"
    "vertices M4 = vertices M3"
    "face_map M4 = face_map M3"
    "faces M4 = faces M3"
    by (simp_all add: M4_def)
  have v4: "(\<exists>y. vertex_map M4 k = Some y) = (1 \<le> k \<and> k < 1 + int n + int n)" for k
    by (simp only: f4 v3)
  define M5 where "M5 = M4
    \<lparr>edge_map := (\<lambda>k. if 1 + int n + int n \<le> k \<and> k < 1 + int n + int n + int n
         then Some (mk_Edge (1 + int (nat (k - (1 + int n + int n))))
                      (1 + int n + int (nat (k - (1 + int n + int n)))))
         else edge_map M4 k),
      edges := edges M4 @ map (\<lambda>i. mk_Edge (1 + int i) (1 + int n + int i)) [0..<n]\<rparr>"
  have p5: "extrude_side_edges n 1 (1 + int n + int n, M4) = (1 + int n + int n + int n, M5)"
    unfolding extrude_side_edges_def Let_def M5_def
    by (rule addEdge_loop) (simp_all add: f4(1) f3(1) e2 v4)
  have f5: "edge_map M5 = (\<lambda>k. if 1 + int n + int n \<le> k \<and> k < 1 + int n + int n + int n
         then Some (mk_Edge (1 + int (nat (k - (1 + int n + int n))))
                      (1 + int n + int (nat (k - (1 + int n + int n)))))
         else edge_map M4 k)"
    "edges M5 = edges M4 @ map (\<lambda>i. mk_Edge (1 + int i) (1 + int n + int i)) [0..<n]"
    "vertex_map M5 = vertex_map M4"
    "vertices M5 = vertices M4"
    "face_map M5 = face_map M4"
    "faces M5 = faces M4"
    by (simp_all add: M5_def)
  have e5: "(edge_map M5 k \<noteq> None) = (1 \<le> k \<and> k < 1 + int n + int n + int n)" for k
    by (auto simp add: f5(1) f4(1) f3(1) e2)
  have g5: "face_map M5 = Map.empty" "faces M5 = []"
    by (simp_all add: f5 f4 f3 f2 f1 f0)
  \<comment> \<open>the bottom face, the top face and the side faces\<close>
  define M6 where "M6 = M5
    \<lparr>face_map := (face_map M5)(1 \<mapsto> mk_Face (map int [1..<n + 1])),
      faces := faces M5 @ [mk_Face (map int [1..<n + 1])]\<rparr>"
  have r1: "push_range 1 n = map int [1..<n + 1]"
    by (simp add: push_range_def push_back_loop)
  have p6: "snd (addFace 1 (push_range 1 n) M5) = M6"
    unfolding M6_def r1
  proof (rule addFace_fresh)
    show "face_map M5 1 = None" by (simp add: g5)
    show "list_all (\<lambda>k. edge_map M5 k \<noteq> None) (map int [1..<n + 1])"
      unfolding list_all_iff e5 by auto
  qed
  have f6: "face_map M6 = [1 \<mapsto> mk_Face (map int [1..<n + 1])]"
    "faces M6 = [mk_Face (map int [1..<n + 1])]"
    "vertex_map M6 = vertex_map M5" "vertices M6 = vertices M5"
    "edge_map M6 = edge_map M5" "edges M6 = edges M5"
    by (simp_all add: M6_def g5)
  define M7 where "M7 = M6
    \<lparr>face_map := (face_map M6)(2 \<mapsto> mk_Face (map int [n + 1..<n * 2 + 1])),
      faces := faces M6 @ [mk_Face (map int [n + 1..<n * 2 + 1])]\<rparr>"
  have r2: "push_range (n + 1) (n * 2) = map int [n + 1..<n * 2 + 1]"
    by (simp add: push_range_def push_back_loop)
  have p7: "snd (addFace 2 (push_range (n + 1) (n * 2)) M6) = M7"
    unfolding M7_def r2
  proof (rule addFace_fresh)
    show "face_map M6 2 = None" by (simp add: f6(1))
    show "list_all (\<lambda>k. edge_map M6 k \<noteq> None) (map int [n + 1..<n * 2 + 1])"
      unfolding list_all_iff f6 e5 by auto
  qed
  have f7: "face_map M7 = [1 \<mapsto> mk_Face (map int [1..<n + 1]),
                          2 \<mapsto> mk_Face (map int [n + 1..<n * 2 + 1])]"
    "faces M7 = [mk_Face (map int [1..<n + 1]),
                 mk_Face (map int [n + 1..<n * 2 + 1])]"
    "vertex_map M7 = vertex_map M5" "vertices M7 = vertices M5"
    "edge_map M7 = edge_map M5" "edges M7 = edges M5"
    by (simp_all add: M7_def f6)
  have e7: "(\<exists>y. edge_map M7 k = Some y) = (1 \<le> k \<and> k < 1 + int n + int n + int n)" for k
    using e5 [of k] by (simp add: f7)
  define M8 where "M8 = M7
    \<lparr>face_map := (\<lambda>k. if 3 \<le> k \<and> k < 3 + int n
         then Some (mk_Face
                      [int (n * 2 + 1 + nat (k - 3)), int (n + 1 + (nat (k - 3) + 1) mod n),
                           int (n * 2 + 1 + (nat (k - 3) + 1) mod n), int (nat (k - 3) + 1)])
         else face_map M7 k),
      faces := faces M7 @ map (\<lambda>i. mk_Face
                          [int (n * 2 + 1 + i), int (n + 1 + (i + 1) mod n),
                           int (n * 2 + 1 + (i + 1) mod n), int (i + 1)]) [0..<n]\<rparr>"
  have p8: "extrude_side_faces n (3, M7) = (3 + int n, M8)"
    unfolding extrude_side_faces_def Let_def M8_def
    by (rule addFace_loop) (simp_all add: f7(1) e7 md md2 md3)
  have f8: "face_map M8 = (\<lambda>k. if 3 \<le> k \<and> k < 3 + int n
         then Some (mk_Face
                      [int (n * 2 + 1 + nat (k - 3)), int (n + 1 + (nat (k - 3) + 1) mod n),
                           int (n * 2 + 1 + (nat (k - 3) + 1) mod n), int (nat (k - 3) + 1)])
         else face_map M7 k)"
    "faces M8 = faces M7 @ map (\<lambda>i. mk_Face
                          [int (n * 2 + 1 + i), int (n + 1 + (i + 1) mod n),
                           int (n * 2 + 1 + (i + 1) mod n), int (i + 1)]) [0..<n]"
    "vertex_map M8 = vertex_map M7"
    "vertices M8 = vertices M7"
    "edge_map M8 = edge_map M7"
    "edges M8 = edges M7"
    by (simp_all add: M8_def)
  \<comment> \<open>the whole of \<open>extrude\<close>\<close>
  have p7': "snd (addFace (1 + 1) (push_range (n + 1) (n * 2)) M6) = M7"
    using p7 by simp
  have p8': "extrude_side_faces n (1 + 2, M7) = (3 + int n, M8)"
    using p8 by simp
  have res: "extrude empty_manager p d = (True, M8)"
    unfolding extrude_def reserveVertices_def reserveEdges_def reserveFaces_def Let_def
      n_def [symmetric]
    using ne by (simp only: p1 p2 p3 p4 p5 p6 p7' p8' if_False prod.case)
  show "fst (extrude empty_manager p d) = True"
    by (simp add: res)
  have "vertex_map M8 =
          (\<lambda>k. if 1 + int n \<le> k \<and> k < 1 + int n + int n
             then Some (mk_Point3D k (x_pt (p ! nat (k - (1 + int n))))
                          (y_pt (p ! nat (k - (1 + int n))))
                          (z_pt (p ! nat (k - (1 + int n))) + d))
             else if 1 \<le> k \<and> k < 1 + int n
             then Some (mk_Point3D k (x_pt (p ! nat (k - 1))) (y_pt (p ! nat (k - 1)))
                          (z_pt (p ! nat (k - 1))))
             else None)"
    by (simp add: f8(3) f7(3) f5(3) f4(3) f3(3) f2(1) f1(1) f0 cong: if_cong)
  then show "vertex_map (snd (extrude empty_manager p d)) =
          (\<lambda>k. if 1 + int (length p) \<le> k \<and> k < 1 + int (length p) + int (length p)
             then Some (mk_Point3D k (x_pt (p ! nat (k - (1 + int (length p)))))
                          (y_pt (p ! nat (k - (1 + int (length p)))))
                          (z_pt (p ! nat (k - (1 + int (length p)))) + d))
             else if 1 \<le> k \<and> k < 1 + int (length p)
             then Some (mk_Point3D k (x_pt (p ! nat (k - 1))) (y_pt (p ! nat (k - 1)))
                          (z_pt (p ! nat (k - 1))))
             else None)"
    unfolding res snd_conv n_def .
  have "vertices M8 =
          map (\<lambda>i. mk_Point3D (1 + int i) (x_pt (p ! i)) (y_pt (p ! i)) (z_pt (p ! i))) [0..<n]
           @ map (\<lambda>i. mk_Point3D (1 + int n + int i) (x_pt (p ! i)) (y_pt (p ! i))
                      (z_pt (p ! i) + d)) [0..<n]"
    by (simp add: f8(4) f7(4) f5(4) f4(4) f3(4) f2(2) f1(2) f0 cong: if_cong)
  then show "vertices (snd (extrude empty_manager p d)) =
          map (\<lambda>i. mk_Point3D (1 + int i) (x_pt (p ! i)) (y_pt (p ! i)) (z_pt (p ! i))) [0..<length p]
           @ map (\<lambda>i. mk_Point3D (1 + int (length p) + int i) (x_pt (p ! i)) (y_pt (p ! i))
                      (z_pt (p ! i) + d)) [0..<length p]"
    unfolding res snd_conv n_def .
  have "edge_map M8 =
          (\<lambda>k. if 1 + int n + int n \<le> k \<and> k < 1 + int n + int n + int n
             then Some (mk_Edge (1 + int (nat (k - (1 + int n + int n))))
                          (1 + int n + int (nat (k - (1 + int n + int n)))))
             else if 1 + int n \<le> k \<and> k < 1 + int n + int n
             then Some (mk_Edge (1 + int n + int (nat (k - (1 + int n))))
                          (1 + int n + int ((nat (k - (1 + int n)) + 1) mod n)))
             else if 1 \<le> k \<and> k < 1 + int n
             then Some (mk_Edge (1 + int (nat (k - 1))) (1 + int ((nat (k - 1) + 1) mod n)))
             else None)"
    by (simp add: f8(5) f7(5) f5(1) f4(1) f3(1) e2 cong: if_cong)
  then show "edge_map (snd (extrude empty_manager p d)) =
          (\<lambda>k. if 1 + int (length p) + int (length p) \<le> k \<and> k < 1 + int (length p) + int (length p) + int (length p)
             then Some (mk_Edge (1 + int (nat (k - (1 + int (length p) + int (length p)))))
                          (1 + int (length p) + int (nat (k - (1 + int (length p) + int (length p))))))
             else if 1 + int (length p) \<le> k \<and> k < 1 + int (length p) + int (length p)
             then Some (mk_Edge (1 + int (length p) + int (nat (k - (1 + int (length p)))))
                          (1 + int (length p) + int ((nat (k - (1 + int (length p))) + 1) mod length p)))
             else if 1 \<le> k \<and> k < 1 + int (length p)
             then Some (mk_Edge (1 + int (nat (k - 1))) (1 + int ((nat (k - 1) + 1) mod length p)))
             else None)"
    unfolding res snd_conv n_def .
  have "edges M8 =
          map (\<lambda>i. mk_Edge (1 + int i) (1 + int ((i + 1) mod n))) [0..<n]
           @ map (\<lambda>i. mk_Edge (1 + int n + int i) (1 + int n + int ((i + 1) mod n))) [0..<n]
           @ map (\<lambda>i. mk_Edge (1 + int i) (1 + int n + int i)) [0..<n]"
    by (simp add: f8(6) f7(6) f5(2) f4(2) f3(2) f2 f1 f0 cong: if_cong)
  then show "edges (snd (extrude empty_manager p d)) =
          map (\<lambda>i. mk_Edge (1 + int i) (1 + int ((i + 1) mod length p))) [0..<length p]
           @ map (\<lambda>i. mk_Edge (1 + int (length p) + int i) (1 + int (length p) + int ((i + 1) mod length p))) [0..<length p]
           @ map (\<lambda>i. mk_Edge (1 + int i) (1 + int (length p) + int i)) [0..<length p]"
    unfolding res snd_conv n_def .
  have "face_map M8 =
          (\<lambda>k. if 3 \<le> k \<and> k < 3 + int n
             then Some (mk_Face
                          [int (n * 2 + 1 + nat (k - 3)), int (n + 1 + (nat (k - 3) + 1) mod n),
                           int (n * 2 + 1 + (nat (k - 3) + 1) mod n), int (nat (k - 3) + 1)])
             else if k = 2 then Some (mk_Face (map int [n + 1..<n * 2 + 1]))
             else if k = 1 then Some (mk_Face (map int [1..<n + 1]))
             else None)"
    by (simp add: f8(1) f7(1) cong: if_cong)
  then show "face_map (snd (extrude empty_manager p d)) =
          (\<lambda>k. if 3 \<le> k \<and> k < 3 + int (length p)
             then Some (mk_Face
                          [int (length p * 2 + 1 + nat (k - 3)), int (length p + 1 + (nat (k - 3) + 1) mod length p),
                           int (length p * 2 + 1 + (nat (k - 3) + 1) mod length p), int (nat (k - 3) + 1)])
             else if k = 2 then Some (mk_Face (map int [length p + 1..<length p * 2 + 1]))
             else if k = 1 then Some (mk_Face (map int [1..<length p + 1]))
             else None)"
    unfolding res snd_conv n_def .
  have "faces M8 =
          [mk_Face (map int [1..<n + 1]),
            mk_Face (map int [n + 1..<n * 2 + 1])]
           @ map (\<lambda>i. mk_Face
                          [int (n * 2 + 1 + i), int (n + 1 + (i + 1) mod n),
                           int (n * 2 + 1 + (i + 1) mod n), int (i + 1)]) [0..<n]"
    by (simp add: f8(2) f7(2) cong: if_cong)
  then show "faces (snd (extrude empty_manager p d)) =
          [mk_Face (map int [1..<length p + 1]),
            mk_Face (map int [length p + 1..<length p * 2 + 1])]
           @ map (\<lambda>i. mk_Face
                          [int (length p * 2 + 1 + i), int (length p + 1 + (i + 1) mod length p),
                           int (length p * 2 + 1 + (i + 1) mod length p), int (i + 1)]) [0..<length p]"
    unfolding res snd_conv n_def .
qed

section \<open>Revolution of a profile into the empty store\<close>

lemma fold_frame:
  assumes "\<And>x st. Q (snd (f x st)) = Q (snd st)"
  shows "Q (snd (fold f xs st)) = Q (snd st)"
  by (induction xs arbitrary: st) (simp_all add: assms)

lemma addEdge_vertices:
  "vertex_map (snd (addEdge i s e m)) = vertex_map m" "vertices (snd (addEdge i s e m)) = vertices m"
  by (simp_all add: addEdge_def Let_def split: option.splits)

lemma addFace_vertices:
  "vertex_map (snd (addFace i es m)) = vertex_map m" "vertices (snd (addFace i es m)) = vertices m"
  by (simp_all add: addFace_def Let_def split: option.splits)

lemma revolve_ring_edges_vertices:
  "vertex_map (snd (revolve_ring_edges n b st)) = vertex_map (snd st)"
  "vertices (snd (revolve_ring_edges n b st)) = vertices (snd st)"
  unfolding revolve_ring_edges_def
  by (rule fold_frame, rule fold_frame, simp add: addEdge_vertices Let_def split: prod.splits)+

lemma revolve_sweep_edges_vertices:
  "vertex_map (snd (revolve_sweep_edges n b st)) = vertex_map (snd st)"
  "vertices (snd (revolve_sweep_edges n b st)) = vertices (snd st)"
  unfolding revolve_sweep_edges_def
  by (rule fold_frame, rule fold_frame, simp add: addEdge_vertices split: prod.splits)+

lemma revolve_side_faces_vertices:
  "vertex_map (snd (revolve_side_faces n st)) = vertex_map (snd st)"
  "vertices (snd (revolve_side_faces n st)) = vertices (snd st)"
  unfolding revolve_side_faces_def
  by (rule fold_frame, rule fold_frame, simp add: addFace_vertices Let_def split: prod.splits)+

lemma revolve_keeps_ring_vertices:
  assumes "p \<noteq> []"
  shows "vertex_map (snd (revolve m p axis_point axis_direction angle))
           = vertex_map (revolve_vertices p (angle / 4) 1 m)"
    and "vertices (snd (revolve m p axis_point axis_direction angle))
           = vertices (revolve_vertices p (angle / 4) 1 m)"
  using assms
  by (simp_all add: revolve_def Let_def steps_def reserveVertices_def reserveEdges_def
      reserveFaces_def revolve_ring_edges_vertices revolve_sweep_edges_vertices
      revolve_side_faces_vertices addFace_vertices case_prod_beta)

lemma revolve_vertices_rings:
  fixes p :: "Point3D list" and sa :: real
  defines "n \<equiv> length p"
  defines "ring \<equiv> \<lambda>step i. mk_Point3D (1 + int (step * n) + int i)
                     (x_pt (rotateZ (p ! i) (sa * real step)))
                     (y_pt (rotateZ (p ! i) (sa * real step)))
                     (z_pt (rotateZ (p ! i) (sa * real step)))"
  defines "run \<equiv> \<lambda>k. fold (\<lambda>step m.
             let current_angle = sa * real step
             in fold (\<lambda>i m'.
                        let v = p ! i;
                            rotated = rotateZ v current_angle
                        in snd (addVertex (1 + int (step * length p) + int i)
                                  (x_pt rotated) (y_pt rotated) (z_pt rotated) m'))
                  [0..<length p] m)
       [0..<k] empty_manager"
  shows "vertices (run k) = concat (map (\<lambda>step. map (ring step) [0..<n]) [0..<k])
       \<and> (\<forall>j. (vertex_map (run k) j \<noteq> None) = (1 \<le> j \<and> j < 1 + int (k * n)))
       \<and> (\<forall>step<k. \<forall>i<n. vertex_map (run k) (1 + int (step * n) + int i) = Some (ring step i))"
proof (induction k)
  case 0
  then show ?case by (simp add: run_def empty_manager_def)
next
  case (Suc k)
  let ?b = "1 + int (k * n)"
  have step: "run (Suc k)
      = fold (\<lambda>i m'. snd (addVertex (?b + int i)
                 (x_pt (rotateZ (p ! i) (sa * real k))) (y_pt (rotateZ (p ! i) (sa * real k)))
                 (z_pt (rotateZ (p ! i) (sa * real k))) m')) [0..<n] (run k)"
    by (simp add: run_def Let_def n_def)
  have fresh: "\<forall>i<n. vertex_map (run k) (?b + int i) = None"
  proof (intro allI impI)
    fix i
    have "\<not> (vertex_map (run k) (?b + int i) \<noteq> None)"
      using Suc.IH by simp
    then show "vertex_map (run k) (?b + int i) = None" by simp
  qed
  note eq = step [unfolded addVertex_loop [OF fresh]]
  have vm: "vertex_map (run (Suc k)) j
      = (if ?b \<le> j \<and> j < ?b + int n then Some (ring k (nat (j - ?b))) else vertex_map (run k) j)" for j
  proof -
    have "j = 1 + int (k * n) + int (nat (j - ?b))" if "?b \<le> j" using that by simp
    then show ?thesis by (auto simp add: eq ring_def)
  qed
  have vs: "vertices (run (Suc k)) = vertices (run k) @ map (ring k) [0..<n]"
    by (simp add: eq ring_def)
  have a: "vertices (run (Suc k)) = concat (map (\<lambda>step. map (ring step) [0..<n]) [0..<Suc k])"
    using Suc.IH by (simp add: vs)
  have b: "(vertex_map (run (Suc k)) j \<noteq> None) = (1 \<le> j \<and> j < 1 + int (Suc k * n))" for j
  proof -
    define K where "K = int (k * n)"
    have ihK: "(vertex_map (run k) j \<noteq> None) = (1 \<le> j \<and> j < 1 + K)"
      unfolding K_def using Suc.IH by blast
    have vmK: "vertex_map (run (Suc k)) j
        = (if 1 + K \<le> j \<and> j < 1 + K + int n then Some (ring k (nat (j - (1 + K))))
           else vertex_map (run k) j)"
      unfolding K_def by (rule vm)
    have skK: "int (Suc k * n) = K + int n" by (simp add: K_def)
    have nn: "0 \<le> K" by (simp add: K_def)
    show ?thesis unfolding vmK skK using ihK nn by auto
  qed
  have c: "vertex_map (run (Suc k)) (1 + int (step * n) + int i) = Some (ring step i)"
    if "step < Suc k" "i < n" for step i
  proof (cases "step = k")
    case True
    then show ?thesis using that by (simp add: vm)
  next
    case False
    then have lt: "step < k" using that by simp
    then have "Suc step \<le> k" by simp
    then have "Suc step * n \<le> k * n" by (rule mult_le_mono1)
    then have "step * n + i < k * n" using that by simp
    then have "1 + int (step * n) + int i < ?b" by linarith
    moreover have "vertex_map (run k) (1 + int (step * n) + int i) = Some (ring step i)"
      using Suc.IH lt that by blast
    ultimately show ?thesis by (simp add: vm)
  qed
  show ?case using a b c by blast
qed

section \<open>The sweeps: counts, faces, rings\<close>

lemma dom_range:
  assumes "\<And>k. (f k \<noteq> None) = (1 \<le> k \<and> k < 1 + int n)"
  shows "dom f = {1..int n}"
  using assms by (auto simp add: dom_def)

text \<open>
  Claim C4, for the profiles on which the source computes within \<open>int\<close>: the largest value
  it computes is the last \<open>edge_id\<close>, \<open>3n + 1\<close>, so for \<open>3n < 2147483647\<close> no conversion
  of a \<open>size_t\<close> sum to \<open>int\<close> changes a value and no increment overflows. On the empty
  store and such a profile of \<open>n > 0\<close> points, \<open>extrude\<close> returns true and leaves \<open>2n\<close>
  vertices (ids 1 to \<open>2n\<close>), \<open>3n\<close> edges (ids 1 to \<open>3n\<close>) and \<open>n + 2\<close> faces (ids 1 to
  \<open>n + 2\<close>); face 1, the first of the vector, lists the edge ids 1 to \<open>n\<close> in order and
  face 2, the second, the edge ids \<open>n + 1\<close> to \<open>2n\<close>; the edges 1 to \<open>n\<close> are the base ring
  and the edges \<open>n + 1\<close> to \<open>2n\<close> the top ring; every id of the store is a positive \<open>int\<close>.
\<close>

theorem extrude_counts:
  assumes "profile \<noteq> []" and "3 * length profile < 2147483647"
  shows "fst (extrude empty_manager profile d) = True
    \<and> length (getVertices (snd (extrude empty_manager profile d))) = 2 * length profile
    \<and> dom (vertex_map (snd (extrude empty_manager profile d))) = {1..int (2 * length profile)}
    \<and> length (getEdges (snd (extrude empty_manager profile d))) = 3 * length profile
    \<and> dom (edge_map (snd (extrude empty_manager profile d))) = {1..int (3 * length profile)}
    \<and> length (getFaces (snd (extrude empty_manager profile d))) = length profile + 2
    \<and> dom (face_map (snd (extrude empty_manager profile d))) = {1..int (length profile + 2)}
    \<and> getFace (snd (extrude empty_manager profile d)) 1
          = Some (mk_Face (map int [1..<length profile + 1]))
    \<and> getFace (snd (extrude empty_manager profile d)) 2
          = Some (mk_Face (map int [length profile + 1..<2 * length profile + 1]))
    \<and> getFaces (snd (extrude empty_manager profile d)) ! 0
          = mk_Face (map int [1..<length profile + 1])
    \<and> getFaces (snd (extrude empty_manager profile d)) ! 1
          = mk_Face (map int [length profile + 1..<2 * length profile + 1])
    \<and> (\<forall>i<length profile.
          getEdge (snd (extrude empty_manager profile d)) (1 + int i)
            = Some (mk_Edge (1 + int i) (1 + int ((i + 1) mod length profile)))
          \<and> getEdge (snd (extrude empty_manager profile d)) (1 + int (length profile) + int i)
            = Some (mk_Edge (1 + int (length profile) + int i)
                      (1 + int (length profile) + int ((i + 1) mod length profile))))
    \<and> (\<forall>k \<in> dom (vertex_map (snd (extrude empty_manager profile d)))
              \<union> dom (edge_map (snd (extrude empty_manager profile d)))
              \<union> dom (face_map (snd (extrude empty_manager profile d))).
          1 \<le> k \<and> k \<le> 2147483647)"
proof -
  note s = extrude_empty_store [OF assms(1), of d]
  have n: "0 < length profile" using assms(1) by simp
  have v: "dom (vertex_map (snd (extrude empty_manager profile d))) = {1..int (2 * length profile)}"
    by (rule dom_range) (auto simp add: s(2))
  have e: "dom (edge_map (snd (extrude empty_manager profile d))) = {1..int (3 * length profile)}"
    by (rule dom_range) (auto simp add: s(4))
  have f: "dom (face_map (snd (extrude empty_manager profile d))) = {1..int (length profile + 2)}"
    by (rule dom_range) (auto simp add: s(6))
  have g: "getFace (snd (extrude empty_manager profile d)) 1
          = Some (mk_Face (map int [1..<length profile + 1]))"
    "getFace (snd (extrude empty_manager profile d)) 2
          = Some (mk_Face (map int [length profile + 1..<2 * length profile + 1]))"
    by (simp_all add: getFace_eq s(6) mult.commute)
  have l: "length (getVertices (snd (extrude empty_manager profile d))) = 2 * length profile"
    "length (getEdges (snd (extrude empty_manager profile d))) = 3 * length profile"
    "length (getFaces (snd (extrude empty_manager profile d))) = length profile + 2"
    by (simp_all add: getVertices_def getEdges_def getFaces_def s(3) s(5) s(7))
  have h: "getFaces (snd (extrude empty_manager profile d)) ! 0
          = mk_Face (map int [1..<length profile + 1])"
    "getFaces (snd (extrude empty_manager profile d)) ! 1
          = mk_Face (map int [length profile + 1..<2 * length profile + 1])"
    by (simp_all add: getFaces_def s(7) mult.commute)
  have r: "getEdge (snd (extrude empty_manager profile d)) (1 + int i)
            = Some (mk_Edge (1 + int i) (1 + int ((i + 1) mod length profile)))
          \<and> getEdge (snd (extrude empty_manager profile d)) (1 + int (length profile) + int i)
            = Some (mk_Edge (1 + int (length profile) + int i)
                      (1 + int (length profile) + int ((i + 1) mod length profile)))"
    if "i < length profile" for i
    using that by (simp add: getEdge_eq s(4))
  have b: "1 \<le> k \<and> k \<le> 2147483647"
    if "k \<in> dom (vertex_map (snd (extrude empty_manager profile d)))
              \<union> dom (edge_map (snd (extrude empty_manager profile d)))
              \<union> dom (face_map (snd (extrude empty_manager profile d)))" for k
  proof -
    have "1 \<le> int (length profile)"
      using n by linarith
    then have "1 \<le> k \<and> k \<le> int (3 * length profile)"
      using that unfolding v e f by auto
    moreover have "int (3 * length profile) < 2147483647"
      using assms(2) by linarith
    ultimately show ?thesis by linarith
  qed
  have r': "\<forall>i<length profile.
          getEdge (snd (extrude empty_manager profile d)) (1 + int i)
            = Some (mk_Edge (1 + int i) (1 + int ((i + 1) mod length profile)))
          \<and> getEdge (snd (extrude empty_manager profile d)) (1 + int (length profile) + int i)
            = Some (mk_Edge (1 + int (length profile) + int i)
                      (1 + int (length profile) + int ((i + 1) mod length profile)))"
    using r by blast
  have b': "\<forall>k \<in> dom (vertex_map (snd (extrude empty_manager profile d)))
              \<union> dom (edge_map (snd (extrude empty_manager profile d)))
              \<union> dom (face_map (snd (extrude empty_manager profile d))).
          1 \<le> k \<and> k \<le> 2147483647"
    using b by blast
  from s(1) l(1) v l(2) e l(3) f g h r' b' show ?thesis
    by (intro conjI)
qed

theorem extrude_counts_witness:
  "unit_square \<noteq> []
   \<and> 3 * length unit_square < 2147483647
   \<and> fst (extrude empty_manager unit_square 1) = True
   \<and> length (getVertices (snd (extrude empty_manager unit_square 1))) = 8
   \<and> length (getEdges (snd (extrude empty_manager unit_square 1))) = 12
   \<and> length (getFaces (snd (extrude empty_manager unit_square 1))) = 6
   \<and> getFace (snd (extrude empty_manager unit_square 1)) 1 = Some (mk_Face [1, 2, 3, 4])
   \<and> getFace (snd (extrude empty_manager unit_square 1)) 2 = Some (mk_Face [5, 6, 7, 8])"
proof -
  have a: "unit_square \<noteq> []" and b: "length unit_square = 4"
    by (simp_all add: unit_square_def)
  have c: "map int [Suc 0..<5] = [1, 2, 3, 4]" "map int [5..<9] = [5, 6, 7, 8]"
    by (simp_all add: upt_rec)
  have d: "3 * length unit_square < 2147483647"
    by (simp add: b)
  show ?thesis
    using extrude_counts [OF a d, of 1] a d by (simp add: b c)
qed

text \<open>
  Claim C5: two calls of \<open>revolve\<close> that differ in \<open>axis_point\<close> and \<open>axis_direction\<close> only
  return the same flag and the same store. For the profiles on which the source computes
  within \<open>int\<close> (the largest value it computes is the last \<open>edge_id\<close>, \<open>9n + 1\<close>, so for
  \<open>9n \<le> 2147483647\<close> no conversion to \<open>int\<close> changes a value and no increment overflows):
  on the empty store and such a profile of \<open>n > 0\<close> points the vertices are five rings of
  \<open>n\<close>, ring \<open>step\<close> being the profile turned about the Z axis by \<open>step\<close> quarters of the
  angle, \<open>5n\<close> vertices in all under the ids 1 to \<open>5n\<close>, each a positive \<open>int\<close>.
\<close>

theorem revolve_five_rings_axis_ignored:
  "revolve m p axis_point axis_direction angle = revolve m p axis_point' axis_direction' angle
   \<and> (p \<noteq> [] \<and> 9 * length p \<le> 2147483647 \<longrightarrow>
        fst (revolve empty_manager p axis_point axis_direction angle) = True
        \<and> getVertices (snd (revolve empty_manager p axis_point axis_direction angle))
            = concat (map (\<lambda>step. map (\<lambda>i. mk_Point3D (1 + int (step * length p) + int i)
                                         (x_pt (rotateZ (p ! i) (angle / 4 * real step)))
                                         (y_pt (rotateZ (p ! i) (angle / 4 * real step)))
                                         (z_pt (rotateZ (p ! i) (angle / 4 * real step))))
                                 [0..<length p]) [0..<5])
        \<and> length (getVertices (snd (revolve empty_manager p axis_point axis_direction angle)))
            = 5 * length p
        \<and> dom (vertex_map (snd (revolve empty_manager p axis_point axis_direction angle)))
            = {1..int (5 * length p)}
        \<and> (\<forall>k \<in> dom (vertex_map (snd (revolve empty_manager p axis_point axis_direction
                                           angle))).
              1 \<le> k \<and> k \<le> 2147483647))"
proof -
  have ax: "revolve m p axis_point axis_direction angle
      = revolve m p axis_point' axis_direction' angle"
    by (simp add: revolve_def)
  have rest: "fst (revolve empty_manager p axis_point axis_direction angle) = True
        \<and> getVertices (snd (revolve empty_manager p axis_point axis_direction angle))
            = concat (map (\<lambda>step. map (\<lambda>i. mk_Point3D (1 + int (step * length p) + int i)
                                         (x_pt (rotateZ (p ! i) (angle / 4 * real step)))
                                         (y_pt (rotateZ (p ! i) (angle / 4 * real step)))
                                         (z_pt (rotateZ (p ! i) (angle / 4 * real step))))
                                 [0..<length p]) [0..<5])
        \<and> length (getVertices (snd (revolve empty_manager p axis_point axis_direction angle)))
            = 5 * length p
        \<and> dom (vertex_map (snd (revolve empty_manager p axis_point axis_direction angle)))
            = {1..int (5 * length p)}
        \<and> (\<forall>k \<in> dom (vertex_map (snd (revolve empty_manager p axis_point axis_direction
                                           angle))).
              1 \<le> k \<and> k \<le> 2147483647)"
    if ne: "p \<noteq> []" and bound: "9 * length p \<le> 2147483647"
  proof -
    note k = revolve_keeps_ring_vertices [OF ne, of empty_manager axis_point axis_direction angle]
    note r = revolve_vertices_rings [where p = p and sa = "angle / 4" and k = 5]
    have rv: "revolve_vertices p (angle / 4) 1 empty_manager
      = fold (\<lambda>step m.
             let current_angle = angle / 4 * real step
             in fold (\<lambda>i m'.
                        let v = p ! i;
                            rotated = rotateZ v current_angle
                        in snd (addVertex (1 + int (step * length p) + int i)
                                  (x_pt rotated) (y_pt rotated) (z_pt rotated) m'))
                  [0..<length p] m)
       [0..<5] empty_manager"
      by (simp add: revolve_vertices_def steps_def)
    have t: "fst (revolve empty_manager p axis_point axis_direction angle) = True"
      using ne by (simp add: revolve_def Let_def case_prod_beta)
    have vs: "getVertices (snd (revolve empty_manager p axis_point axis_direction angle))
            = concat (map (\<lambda>step. map (\<lambda>i. mk_Point3D (1 + int (step * length p) + int i)
                                         (x_pt (rotateZ (p ! i) (angle / 4 * real step)))
                                         (y_pt (rotateZ (p ! i) (angle / 4 * real step)))
                                         (z_pt (rotateZ (p ! i) (angle / 4 * real step))))
                                 [0..<length p]) [0..<5])"
      unfolding getVertices_def k rv using r by blast
    have len: "length (getVertices (snd (revolve empty_manager p axis_point axis_direction angle)))
            = 5 * length p"
      unfolding vs by (simp add: length_concat comp_def sum_list_triv)
    have d: "dom (vertex_map (snd (revolve empty_manager p axis_point axis_direction angle)))
            = {1..int (5 * length p)}"
      unfolding k rv
    proof (rule dom_range)
      fix j
      show "(vertex_map (fold (\<lambda>step m.
             let current_angle = angle / 4 * real step
             in fold (\<lambda>i m'.
                        let v = p ! i;
                            rotated = rotateZ v current_angle
                        in snd (addVertex (1 + int (step * length p) + int i)
                                  (x_pt rotated) (y_pt rotated) (z_pt rotated) m'))
                  [0..<length p] m)
       [0..<5] empty_manager) j \<noteq> None) = (1 \<le> j \<and> j < 1 + int (5 * length p))"
        using r by blast
    qed
    have b: "1 \<le> k \<and> k \<le> 2147483647"
      if "k \<in> dom (vertex_map (snd (revolve empty_manager p axis_point axis_direction
                                      angle)))" for k
      using that bound unfolding d by auto
    show ?thesis using t vs len d b by blast
  qed
  show ?thesis using ax rest by blast
qed

theorem revolve_five_rings_axis_ignored_witness:
  "[mk_Point3D 1 1 0 0] \<noteq> []
   \<and> 9 * length [mk_Point3D 1 1 0 0] \<le> 2147483647
   \<and> revolve empty_manager [mk_Point3D 1 1 0 0] (mk_Point3D 0 0 0 0) 7 0
       = revolve empty_manager [mk_Point3D 1 1 0 0] (mk_Point3D 0 5 5 5) 8 0
   \<and> length (getVertices (snd (revolve empty_manager [mk_Point3D 1 1 0 0] (mk_Point3D 0 0 0 0) 7 0))) = 5"
proof -
  have a: "[mk_Point3D 1 1 0 0] \<noteq> []" by simp
  have b: "5 * length [mk_Point3D 1 1 0 0] = 5" by simp
  have c: "9 * length [mk_Point3D 1 1 0 0] \<le> 2147483647" by simp
  show ?thesis
    using revolve_five_rings_axis_ignored
      [of empty_manager "[mk_Point3D 1 1 0 0]" "mk_Point3D 0 0 0 0" 7 0 "mk_Point3D 0 5 5 5" 8]
      a c
    unfolding b by blast
qed

end
